theory Spec2Isabelle
  imports Main "HOL-Library.AList"
begin

section \<open>The authentication and session-token engine of services/auth\_service.py\<close>

text \<open>
  The development embeds \<^verbatim>\<open>AuthService\<close> (services/auth\_service.py) together with the
  three tables of database/schema.py it reads and writes.

  \<^item> Time is counted in whole seconds since the epoch, the resolution of the \<^verbatim>\<open>exp\<close> and
    \<^verbatim>\<open>iat\<close> fields of a token. Every operation takes the reading \<open>now\<close> of
    \<^verbatim>\<open>datetime.utcnow()\<close> as an argument: one call runs at one instant. Only
    \<^verbatim>\<open>_create_access_token\<close>, whose caller chooses the lifetime, reads a clock of
    microseconds (section Minting and decoding).
  \<^item> The random draws of an operation (\<^verbatim>\<open>uuid.uuid4()\<close>, the bytes behind
    \<^verbatim>\<open>bcrypt.gensalt()\<close>) are arguments as well, collected in the record \<open>draws\<close>.
  \<^item> An exception is a value of the type \<open>error\<close>; an operation returns its result or its
    error together with the database as the call leaves it: the rows that are committed.
    Writes of a session that never reaches its \<^verbatim>\<open>commit\<close>, or whose \<^verbatim>\<open>commit\<close> fails, are gone.
\<close>

type_synonym time = int

subsection \<open>Errors\<close>

text \<open>
  One constructor for each \<^verbatim>\<open>raise ValueError(...)\<close> of the service, named after its message.
  The handlers that re-raise with a prefix (\<^verbatim>\<open>raise ValueError(f"...: {str(e)}")\<close>) are the
  constructors that take the inner error. \<open>IntegrityError\<close> is the exception of the database
  on a duplicate primary key or unique column, \<open>BcryptValueError\<close> the \<^verbatim>\<open>ValueError\<close> of bcrypt.
\<close>

datatype error =
    TokenExpired                \<comment> \<open>decode\_token: ExpiredSignatureError\<close>
  | InvalidToken                \<comment> \<open>decode\_token: InvalidTokenError\<close>
  | EmailNotFound               \<comment> \<open>login, reset request: no user with this email\<close>
  | AwaitingActivation          \<comment> \<open>login: teacher request pending\<close>
  | RequestRejected             \<comment> \<open>login: teacher request rejected\<close>
  | UserInactiveContactAdmin    \<comment> \<open>login: user inactive\<close>
  | WrongPassword               \<comment> \<open>login\<close>
  | BadEmailFormat              \<comment> \<open>register\<close>
  | PasswordTooShort            \<comment> \<open>register\<close>
  | NameTooShort                \<comment> \<open>register\<close>
  | EmailExists                 \<comment> \<open>register\<close>
  | WrongTokenType              \<comment> \<open>type claim is not the expected one\<close>
  | BadToken                    \<comment> \<open>sub or jti missing\<close>
  | TokenRevoked                \<comment> \<open>get\_current\_user\<close>
  | UserNotFound                \<comment> \<open>get\_current\_user, change\_password, reset\<close>
  | UserInactive                \<comment> \<open>get\_current\_user\<close>
  | RefreshNotFoundOrExpired    \<comment> \<open>refresh\_tokens: no stored, unrevoked, unexpired record\<close>
  | UserNotFoundOrInactive      \<comment> \<open>refresh\_tokens\<close>
  | CannotDetermineUser         \<comment> \<open>change\_password\<close>
  | NewPasswordTooShort         \<comment> \<open>change\_password, reset\_password\_with\_token\<close>
  | ResetTokenExpired           \<comment> \<open>reset\_password\_with\_token\<close>
  | ResetTokenInvalid           \<comment> \<open>reset\_password\_with\_token\<close>
  | BcryptValueError            \<comment> \<open>bcrypt: ValueError (no salt can be read, password too long)\<close>
  | IntegrityError              \<comment> \<open>sqlalchemy.exc.IntegrityError\<close>
  | LoginError error
  | RegisterError error
  | GetUserError error
  | RefreshError error
  | LogoutError error
  | LogoutAllError error
  | ChangePasswordError error
  | ResetPasswordError error
  | ResetRequestError error

text \<open>\<^verbatim>\<open>except ValueError\<close> catches everything above but the database's exception.\<close>

fun is_ValueError :: "error \<Rightarrow> bool" where
  "is_ValueError IntegrityError = False"
| "is_ValueError _ = True"

subsection \<open>The tables (database/schema.py)\<close>

text \<open>
  The columns the service reads or writes. The other columns of \<^verbatim>\<open>users\<close>
  (date\_of\_birth, assigned\_departments, assigned\_specialities, experience, education,
  approved\_by, approved\_at) are copied around unchanged and are left out.
\<close>

record User =
  u_id :: string
  u_email :: string
  u_full_name :: string
  u_phone :: string
  u_role :: string
  u_max_students :: int
  u_current_students_count :: int
  u_password_hash :: string
  u_is_active :: bool
  u_created_at :: time
  u_updated_at :: time
  u_last_login :: "time option"

record RefreshToken =
  rt_id :: string
  rt_user_id :: string
  rt_token_hash :: string
  rt_device_info :: "(string \<times> string) list"
  rt_expires_at :: time
  rt_created_at :: time
  rt_revoked_at :: "time option"
  rt_is_revoked :: bool

record TeacherRequest =
  tr_id :: string
  tr_email :: string
  tr_status :: string

record db =
  tbl_users :: "User list"
  tbl_refresh_tokens :: "RefreshToken list"
  tbl_teacher_requests :: "TeacherRequest list"

subsection \<open>Permissions\<close>

type_synonym permissions = "(string \<times> bool) list"

definition dict_update :: "('k \<times> 'v) list \<Rightarrow> ('k \<times> 'v) list \<Rightarrow> ('k \<times> 'v) list" where
  \<comment> \<open>\<^verbatim>\<open>d.update(kvs)\<close>\<close>
  "dict_update kvs d = fold (\<lambda>(k, v). AList.update k v) kvs d"

definition no_permissions :: permissions where
  "no_permissions =
    [(''can_view_students'', False),
     (''can_edit_students'', False),
     (''can_create_students'', False),
     (''can_delete_students'', False),
     (''can_view_communications'', False),
     (''can_create_communications'', False),
     (''can_edit_communications'', False),
     (''can_delete_communications'', False),
     (''can_manage_teachers'', False),
     (''can_manage_departments'', False),
     (''can_manage_system'', False)]"

definition get_user_permissions :: "User \<Rightarrow> permissions" where
  "get_user_permissions user =
    (let permissions = no_permissions in
     if u_role user = ''admin'' then map (\<lambda>(key, _). (key, True)) permissions
     else if u_role user = ''teacher'' then
       dict_update
         [(''can_view_students'', True),
          (''can_create_students'', True),
          (''can_edit_students'', True),
          (''can_view_communications'', True),
          (''can_create_communications'', True),
          (''can_edit_communications'', True)] permissions
     else if u_role user = ''student'' then
       dict_update
         [(''can_view_students'', True),
          (''can_view_communications'', True)] permissions
     else permissions)"

subsection \<open>bcrypt\<close>

text \<open>
  The library is not part of the repository; the model keeps what \<^verbatim>\<open>hashpw\<close>, \<^verbatim>\<open>checkpw\<close> and
  \<^verbatim>\<open>gensalt\<close> do with their arguments, and leaves the digest itself as a parameter \<open>H\<close> of
  everything below.

  \<^item> \<^verbatim>\<open>hashpw(password, salt)\<close> raises \<^verbatim>\<open>ValueError\<close> for a password of more than 72 bytes.
  \<^item> It then reads the salt: the string is split at \<^verbatim>\<open>$\<close> and the empty pieces are dropped;
    there must be three pieces, a version (\<^verbatim>\<open>2a\<close>, \<^verbatim>\<open>2b\<close>, \<^verbatim>\<open>2x\<close> or \<^verbatim>\<open>2y\<close>), a cost that
    reads as a number from 4 to 31, and a rest whose first 22 characters decode to the 16
    bytes of a salt: they are in the bcrypt alphabet and the last one carries no bits
    beyond the 128 (it is one of \<^verbatim>\<open>.\<close>, \<^verbatim>\<open>O\<close>, \<^verbatim>\<open>e\<close>, \<^verbatim>\<open>u\<close>). Anything else raises
    \<^verbatim>\<open>ValueError\<close>. A whole hash string is read the same way: what follows the 22
    characters is ignored.
  \<^item> The result is \<^verbatim>\<open>$\<close>, the version, \<^verbatim>\<open>$\<close>, the cost in two digits, \<^verbatim>\<open>$\<close>, the 22
    characters and the digest of the password under that salt.
  \<^item> \<^verbatim>\<open>checkpw(password, hashed)\<close> is \<^verbatim>\<open>hashpw(password, hashed) == hashed\<close>.
  \<^item> \<^verbatim>\<open>gensalt()\<close> is \<^verbatim>\<open>$2b$12$\<close> and the 22 characters that encode 16 random bytes.

  Strings are ASCII text: one character is one byte.
\<close>

type_synonym digest = "string \<Rightarrow> string \<Rightarrow> string"

definition bcrypt_alphabet :: "char list" where
  "bcrypt_alphabet =
    ''./ABCDEFGHIJKLMNOPQRSTUVWXYZabcdefghijklmnopqrstuvwxyz0123456789''"

fun split_dollar :: "string \<Rightarrow> string list" where
  \<comment> \<open>\<^verbatim>\<open>s.split(b"$")\<close>\<close>
  "split_dollar [] = [[]]"
| "split_dollar (c # cs) =
    (if c = CHR ''$'' then [] # split_dollar cs
     else case split_dollar cs of
            [] \<Rightarrow> [[c]]
          | piece # pieces \<Rightarrow> (c # piece) # pieces)"

definition is_digit :: "char \<Rightarrow> bool" where
  "is_digit c = (c \<in> set ''0123456789'')"

definition digit_value :: "char \<Rightarrow> nat" where
  "digit_value c = of_char c - 48"

definition parse_cost :: "string \<Rightarrow> nat option" where
  \<comment> \<open>an optional plus sign, then digits\<close>
  "parse_cost s =
    (let digits = (case s of [] \<Rightarrow> [] | c # cs \<Rightarrow> if c = CHR ''+'' then cs else s)
     in if digits \<noteq> [] \<and> list_all is_digit digits
        then Some (foldl (\<lambda>n c. 10 * n + digit_value c) 0 digits)
        else None)"

definition salt_chars :: "string \<Rightarrow> bool" where
  \<comment> \<open>22 characters that decode to 16 bytes; what \<^verbatim>\<open>gensalt\<close> draws\<close>
  "salt_chars rnd =
    (length rnd = 22 \<and> list_all (\<lambda>c. c \<in> set bcrypt_alphabet) rnd \<and> last rnd \<in> set ''.Oeu'')"

definition read_salt :: "string \<Rightarrow> (string \<times> nat \<times> string) option" where
  "read_salt salt =
    (case filter (\<lambda>piece. piece \<noteq> []) (split_dollar salt) of
       [version, cost, rest] \<Rightarrow>
         if version \<in> set [''2a'', ''2b'', ''2x'', ''2y''] then
           (case parse_cost cost of
              None \<Rightarrow> None
            | Some n \<Rightarrow>
                if 4 \<le> n \<and> n \<le> 31 \<and> 22 \<le> length rest \<and> salt_chars (take 22 rest)
                then Some (version, n, take 22 rest)
                else None)
         else None
     | _ \<Rightarrow> None)"

definition two_digits :: "nat \<Rightarrow> string" where
  "two_digits n = [''0123456789'' ! (n div 10), ''0123456789'' ! (n mod 10)]"

definition salt_prefix :: "string \<times> nat \<times> string \<Rightarrow> string" where
  "salt_prefix parts =
    (case parts of (version, cost, salt) \<Rightarrow>
       ''$'' @ version @ ''$'' @ two_digits cost @ ''$'' @ salt)"

definition bcrypt_hash :: "digest \<Rightarrow> string \<Rightarrow> string \<Rightarrow> error + string" where
  \<comment> \<open>\<^verbatim>\<open>hashpw\<close> after its check of the password's length\<close>
  "bcrypt_hash H password salt =
    (case read_salt salt of
       None \<Rightarrow> Inl BcryptValueError
     | Some parts \<Rightarrow> Inr (salt_prefix parts @ H password (salt_prefix parts)))"

definition bcrypt_hashpw :: "digest \<Rightarrow> string \<Rightarrow> string \<Rightarrow> error + string" where
  "bcrypt_hashpw H password salt =
    (if 72 < length password then Inl BcryptValueError
     else bcrypt_hash H password salt)"

definition bcrypt_checkpw :: "digest \<Rightarrow> string \<Rightarrow> string \<Rightarrow> error + bool" where
  "bcrypt_checkpw H password hashed_password =
    (case bcrypt_hashpw H password hashed_password of
       Inl e \<Rightarrow> Inl e
     | Inr ret \<Rightarrow> Inr (ret = hashed_password))"

definition bcrypt_gensalt :: "string \<Rightarrow> string" where
  \<comment> \<open>\<open>rnd\<close>: the 22 characters that encode the 16 random bytes\<close>
  "bcrypt_gensalt rnd = ''$2b$12$'' @ rnd"

definition hash_password :: "digest \<Rightarrow> string \<Rightarrow> string \<Rightarrow> error + string" where
  "hash_password H password rnd = bcrypt_hashpw H password (bcrypt_gensalt rnd)"

definition verify_password :: "digest \<Rightarrow> string \<Rightarrow> string \<Rightarrow> error + bool" where
  "verify_password H plain_password hashed_password =
    bcrypt_checkpw H plain_password hashed_password"

text \<open>
  \<^verbatim>\<open>_hash_token\<close> hashes the id of a refresh token, the 36 characters of a \<^verbatim>\<open>uuid4\<close>: the
  check of the length in its call of \<^verbatim>\<open>hashpw\<close> never fires and is left out.
\<close>

definition hash_token :: "digest \<Rightarrow> string \<Rightarrow> string \<Rightarrow> error + string" where
  "hash_token H token rnd = bcrypt_hash H token (bcrypt_gensalt rnd)"

subsection \<open>Tokens (the JWT codec)\<close>

text \<open>
  The payload of a token is a dictionary; \<open>None\<close> is an absent key. The library that signs and
  verifies is not part of the repository. A token string is modelled by what it was made
  from: \<open>Signed key payload\<close> is the serialisation of \<open>payload\<close> with its HS256 tag under
  \<open>key\<close>, \<open>Garbage s\<close> any other string. \<^verbatim>\<open>jwt.decode\<close> checks the tag first and the expiry
  second; a token whose \<^verbatim>\<open>exp\<close> is not after the current time has expired. The field \<^verbatim>\<open>exp\<close>
  is a whole number of seconds, so it is not after the clock of the library exactly when it
  is not after the whole seconds \<open>now\<close> of that clock.

  The library also refuses a token whose \<^verbatim>\<open>iat\<close> lies after the current time. \<open>jwt_decode\<close>
  leaves this check out: it describes the decoding of a token at a clock reading that is
  not before the minting of the token, the only calls the properties below are about.
\<close>

record claims =
  c_sub :: "string option"
  c_email :: "string option"
  c_role :: "string option"
  c_name :: "string option"
  c_permissions :: "permissions option"
  c_exp :: "time option"
  c_iat :: "time option"
  c_type :: "string option"
  c_jti :: "string option"

definition empty_claims :: claims where
  "empty_claims =
    \<lparr>c_sub = None, c_email = None, c_role = None, c_name = None, c_permissions = None,
     c_exp = None, c_iat = None, c_type = None, c_jti = None\<rparr>"

datatype token = Signed string claims | Garbage string

datatype jwt_error = ExpiredSignatureError | InvalidTokenError

definition jwt_encode :: "claims \<Rightarrow> string \<Rightarrow> token" where
  "jwt_encode payload key = Signed key payload"

fun jwt_decode :: "token \<Rightarrow> string \<Rightarrow> time \<Rightarrow> jwt_error + claims" where
  "jwt_decode (Garbage s) key now = Inl InvalidTokenError"
| "jwt_decode (Signed k payload) key now =
    (if k \<noteq> key then Inl InvalidTokenError
     else case c_exp payload of
            None \<Rightarrow> Inr payload
          | Some exp \<Rightarrow> if exp \<le> now then Inl ExpiredSignatureError else Inr payload)"

subsection \<open>The service object and the random draws\<close>

record AuthService =
  secret_key :: string
  access_token_expire_minutes :: int
  refresh_token_expire_days :: int
  password_reset_token_expire_minutes :: int

record draws =
  uuid_user :: string       \<comment> \<open>\<^verbatim>\<open>uuid4()\<close> for a new row of users\<close>
  rnd_password :: string    \<comment> \<open>\<^verbatim>\<open>gensalt()\<close> of \_hash\_password\<close>
  uuid_access :: string     \<comment> \<open>\<^verbatim>\<open>uuid4()\<close> of \_create\_access\_token\<close>
  uuid_refresh :: string    \<comment> \<open>\<^verbatim>\<open>uuid4()\<close> of \_create\_refresh\_token\<close>
  rnd_token :: string       \<comment> \<open>\<^verbatim>\<open>gensalt()\<close> of \_hash\_token\<close>

definition minutes :: "int \<Rightarrow> int" where
  "minutes m = 60 * m"

definition days :: "int \<Rightarrow> int" where
  "days n = 86400 * n"

subsection \<open>Minting and decoding\<close>

text \<open>
  \<^verbatim>\<open>_create_access_token\<close> takes a lifetime from its caller. A \<^verbatim>\<open>datetime\<close> and a
  \<^verbatim>\<open>timedelta\<close> count microseconds; the codec writes a \<^verbatim>\<open>datetime\<close> into a token as whole
  seconds, cut off (\<^verbatim>\<open>timegm(t.utctimetuple())\<close>). The two readings of the clock in one call,
  for \<^verbatim>\<open>exp\<close> and for \<^verbatim>\<open>iat\<close>, are the one instant \<open>utcnow\<close>. The operations of the service,
  which pass no lifetime, read their clock on the second.
\<close>

type_synonym datetime = int

type_synonym timedelta = int

definition timestamp :: "datetime \<Rightarrow> time" where
  "timestamp t = t div 1000000"

definition on_the_second :: "time \<Rightarrow> datetime" where
  "on_the_second s = 1000000 * s"

definition create_access_token ::
  "AuthService \<Rightarrow> claims \<Rightarrow> timedelta option \<Rightarrow> datetime \<Rightarrow> string \<Rightarrow> token" where
  "create_access_token self data expires_delta utcnow uuid =
    (let to_encode = data;
         expire = (case expires_delta of
                     Some delta \<Rightarrow>
                       if delta \<noteq> 0 then utcnow + delta
                       else utcnow + on_the_second (minutes (access_token_expire_minutes self))
                   | None \<Rightarrow>
                       utcnow + on_the_second (minutes (access_token_expire_minutes self)));
         to_encode = to_encode\<lparr>c_exp := Some (timestamp expire),
                       c_iat := Some (timestamp utcnow),
                       c_type := Some ''access'', c_jti := Some uuid\<rparr>
     in jwt_encode to_encode (secret_key self))"

definition create_refresh_token :: "AuthService \<Rightarrow> string \<Rightarrow> time \<Rightarrow> string \<Rightarrow> token \<times> string" where
  "create_refresh_token self user_id now uuid =
    (let refresh_token_id = uuid;
         expires_at = now + days (refresh_token_expire_days self);
         token_data = empty_claims\<lparr>c_sub := Some user_id, c_jti := Some refresh_token_id,
                        c_exp := Some expires_at, c_iat := Some now, c_type := Some ''refresh''\<rparr>
     in (jwt_encode token_data (secret_key self), refresh_token_id))"

definition decode_token :: "AuthService \<Rightarrow> token \<Rightarrow> time \<Rightarrow> error + claims" where
  "decode_token self token now =
    (case jwt_decode token (secret_key self) now of
       Inr payload \<Rightarrow> Inr payload
     | Inl ExpiredSignatureError \<Rightarrow> Inl TokenExpired
     | Inl InvalidTokenError \<Rightarrow> Inl InvalidToken)"

subsection \<open>Rows: insert and update\<close>

text \<open>
  \<^verbatim>\<open>db.add(row); db.commit()\<close> fails with \<open>IntegrityError\<close> on a primary key that exists
  (and, for users, on an email that exists). The foreign key of a refresh token is not
  checked: its user row has just been read by the same call. An update of a loaded row is
  an \<^verbatim>\<open>UPDATE ... WHERE id = ?\<close>; on users it also sets \<^verbatim>\<open>updated_at\<close> (the column's
  \<^verbatim>\<open>onupdate\<close>).
\<close>

definition add_refresh_token :: "db \<Rightarrow> RefreshToken \<Rightarrow> error + db" where
  "add_refresh_token d row =
    (if rt_id row \<in> set (map rt_id (tbl_refresh_tokens d)) then Inl IntegrityError
     else Inr (d\<lparr>tbl_refresh_tokens := tbl_refresh_tokens d @ [row]\<rparr>))"

definition add_user :: "db \<Rightarrow> User \<Rightarrow> error + db" where
  "add_user d row =
    (if u_id row \<in> set (map u_id (tbl_users d)) \<or> u_email row \<in> set (map u_email (tbl_users d))
     then Inl IntegrityError
     else Inr (d\<lparr>tbl_users := tbl_users d @ [row]\<rparr>))"

definition update_user :: "db \<Rightarrow> string \<Rightarrow> (User \<Rightarrow> User) \<Rightarrow> time \<Rightarrow> db" where
  "update_user d uid f now =
    d\<lparr>tbl_users := map (\<lambda>u. if u_id u = uid then (f u)\<lparr>u_updated_at := now\<rparr> else u) (tbl_users d)\<rparr>"

definition revoke :: "time \<Rightarrow> RefreshToken \<Rightarrow> RefreshToken" where
  "revoke now t = t\<lparr>rt_is_revoked := True, rt_revoked_at := Some now\<rparr>"

definition revoke_token :: "db \<Rightarrow> string \<Rightarrow> time \<Rightarrow> db" where
  \<comment> \<open>\<^verbatim>\<open>stored_token.is_revoked = True; stored_token.revoked_at = datetime.utcnow()\<close>\<close>
  "revoke_token d tid now =
    d\<lparr>tbl_refresh_tokens :=
        map (\<lambda>t. if rt_id t = tid then revoke now t else t) (tbl_refresh_tokens d)\<rparr>"

definition save_refresh_token ::
  "digest \<Rightarrow> AuthService \<Rightarrow> db \<Rightarrow> string \<Rightarrow> string \<Rightarrow> (string \<times> string) list option \<Rightarrow>
   time option \<Rightarrow> time \<Rightarrow> string \<Rightarrow> error + db" where
  "save_refresh_token H self d user_id token_id device_info expires_at now rnd =
    (let expires_at = (case expires_at of
                         None \<Rightarrow> now + days (refresh_token_expire_days self)
                       | Some e \<Rightarrow> e)
     in case hash_token H token_id rnd of
          Inl e \<Rightarrow> Inl e
        | Inr h \<Rightarrow>
            add_refresh_token d
              \<lparr>rt_id = token_id, rt_user_id = user_id, rt_token_hash = h,
               rt_device_info = (case device_info of None \<Rightarrow> [] | Some i \<Rightarrow> i),
               rt_expires_at = expires_at, rt_created_at = now,
               rt_revoked_at = None, rt_is_revoked = False\<rparr>)"

subsection \<open>What the operations return\<close>

datatype message =
    LoginOk | RegisteredAwaitActivation | RegisteredActivated | TokensRefreshed
  | LoggedOutAll | PasswordChanged | PasswordReset | ResetMailSent

record user_data =              \<comment> \<open>the dictionary \<^verbatim>\<open>user_data\<close> of login\<close>
  ud_id :: string
  ud_email :: string
  ud_full_name :: string
  ud_phone :: string
  ud_role :: string
  ud_max_students :: int
  ud_current_students_count :: int
  ud_is_active :: bool
  ud_created_at :: time
  ud_last_login :: "time option"
  ud_permissions :: permissions

record user_dict =              \<comment> \<open>the dictionary of \_user\_to\_dict\<close>
  d_id :: string
  d_email :: string
  d_full_name :: string
  d_phone :: string
  d_role :: string
  d_max_students :: int
  d_current_students_count :: int
  d_is_active :: bool
  d_created_at :: time
  d_updated_at :: time
  d_last_login :: "time option"
  d_permissions :: permissions

record 'u token_response =
  r_access_token :: token
  r_refresh_token :: token
  r_token_type :: string
  r_expires_in :: int
  r_user :: 'u
  r_message :: message

definition user_to_dict :: "User \<Rightarrow> user_dict" where
  "user_to_dict user =
    \<lparr>d_id = u_id user, d_email = u_email user, d_full_name = u_full_name user,
     d_phone = u_phone user, d_role = u_role user, d_max_students = u_max_students user,
     d_current_students_count = u_current_students_count user,
     d_is_active = u_is_active user, d_created_at = u_created_at user,
     d_updated_at = u_updated_at user, d_last_login = u_last_login user,
     d_permissions = get_user_permissions user\<rparr>"

definition token_data_of :: "User \<Rightarrow> claims" where
  \<comment> \<open>the dictionary \<^verbatim>\<open>token_data\<close> of login and refresh\<close>
  "token_data_of user =
    empty_claims\<lparr>c_sub := Some (u_id user), c_email := Some (u_email user),
      c_role := Some (u_role user), c_name := Some (u_full_name user),
      c_permissions := Some (get_user_permissions user)\<rparr>"

subsection \<open>login\_with\_email\_password\<close>

definition login_with_email_password ::
  "digest \<Rightarrow> AuthService \<Rightarrow> string \<Rightarrow> string \<Rightarrow> db \<Rightarrow> (string \<times> string) list option \<Rightarrow>
   time \<Rightarrow> draws \<Rightarrow> (error + user_data token_response) \<times> db" where
  "login_with_email_password H self email password d device_info now rnd =
    (case find (\<lambda>u. u_email u = email) (tbl_users d) of
       None \<Rightarrow> (Inl EmailNotFound, d)
     | Some user \<Rightarrow>
         if \<not> u_is_active user then
           (case find (\<lambda>r. tr_email r = email) (tbl_teacher_requests d) of
              None \<Rightarrow> (Inl UserInactiveContactAdmin, d)
            | Some teacher_request \<Rightarrow>
                if tr_status teacher_request = ''pending'' then (Inl AwaitingActivation, d)
                else if tr_status teacher_request = ''rejected'' then (Inl RequestRejected, d)
                else (Inl UserInactiveContactAdmin, d))
         else
           (case verify_password H password (u_password_hash user) of
              Inl e \<Rightarrow> (Inl e, d)
            | Inr False \<Rightarrow> (Inl WrongPassword, d)
            | Inr True \<Rightarrow>
                let d1 = update_user d (u_id user) (\<lambda>u. u\<lparr>u_last_login := Some now\<rparr>) now;
                    user = user\<lparr>u_last_login := Some now, u_updated_at := now\<rparr>;
                    access_token =
                      create_access_token self (token_data_of user) None (on_the_second now) (uuid_access rnd);
                    (refresh_token, refresh_token_id) =
                      create_refresh_token self (u_id user) now (uuid_refresh rnd)
                in case save_refresh_token H self d1 (u_id user) refresh_token_id device_info
                          None now (rnd_token rnd) of
                     Inl e \<Rightarrow> (Inl (if is_ValueError e then e else LoginError e), d1)
                   | Inr d2 \<Rightarrow>
                       (Inr \<lparr>r_access_token = access_token,
                             r_refresh_token = refresh_token,
                             r_token_type = ''bearer'',
                             r_expires_in = access_token_expire_minutes self * 60,
                             r_user =
                               \<lparr>ud_id = u_id user, ud_email = u_email user,
                                ud_full_name = u_full_name user, ud_phone = u_phone user,
                                ud_role = u_role user, ud_max_students = u_max_students user,
                                ud_current_students_count = u_current_students_count user,
                                ud_is_active = u_is_active user,
                                ud_created_at = u_created_at user,
                                ud_last_login = u_last_login user,
                                ud_permissions = get_user_permissions user\<rparr>,
                             r_message = LoginOk\<rparr>, d2)))"

subsection \<open>register\<close>

record register_request =        \<comment> \<open>the dictionary \<^verbatim>\<open>user_data\<close> of register\<close>
  rq_email :: "string option"
  rq_password :: "string option"
  rq_full_name :: "string option"
  rq_role :: "string option"
  rq_phone :: "string option"
  rq_max_students :: "int option"

definition dict_get :: "'a option \<Rightarrow> 'a \<Rightarrow> 'a" where
  \<comment> \<open>\<^verbatim>\<open>d.get(key, default)\<close>\<close>
  "dict_get v dflt = (case v of None \<Rightarrow> dflt | Some x \<Rightarrow> x)"

text \<open>
  \<^verbatim>\<open>str.strip()\<close> and \<^verbatim>\<open>str.lower()\<close> on ASCII text: the whitespace characters are tab, the
  line and page breaks, the four separators 28 to 31 and the space. On text outside ASCII
  \<^verbatim>\<open>str.strip()\<close> removes the Unicode spaces too and \<^verbatim>\<open>str.lower()\<close> maps more letters; such
  text is outside these two definitions.
\<close>

definition is_space :: "char \<Rightarrow> bool" where
  "is_space c = (of_char c \<in> {9, 10, 11, 12, 13, 28, 29, 30, 31, 32 :: nat})"

definition strip :: "string \<Rightarrow> string" where
  "strip s = rev (dropWhile is_space (rev (dropWhile is_space s)))"

definition lower :: "string \<Rightarrow> string" where
  "lower s = map (\<lambda>c. let n = of_char c :: nat in
                       if 65 \<le> n \<and> n \<le> 90 then char_of (n + 32) else c) s"

definition register ::
  "digest \<Rightarrow> AuthService \<Rightarrow> register_request \<Rightarrow> db \<Rightarrow> (string \<times> string) list option \<Rightarrow>
   time \<Rightarrow> draws \<Rightarrow> (error + user_data token_response) \<times> db" where
  "register H self user_data d device_info now rnd =
    (let email = lower (strip (dict_get (rq_email user_data) ''''));
         password = dict_get (rq_password user_data) '''';
         full_name = strip (dict_get (rq_full_name user_data) '''');
         role = dict_get (rq_role user_data) ''teacher''
     in if email = [] \<or> CHR ''@'' \<notin> set email then (Inl BadEmailFormat, d)
        else if password = [] \<or> length password < 6 then (Inl PasswordTooShort, d)
        else if full_name = [] \<or> length full_name < 2 then (Inl NameTooShort, d)
        else case find (\<lambda>u. u_email u = email) (tbl_users d) of
          Some existing_user \<Rightarrow> (Inl EmailExists, d)
        | None \<Rightarrow>
            (case hash_password H password (rnd_password rnd) of
               Inl e \<Rightarrow> (Inl e, d)
             | Inr password_hash \<Rightarrow>
                 (case add_user d
                         \<lparr>u_id = uuid_user rnd, u_email = email, u_full_name = full_name,
                          u_phone = dict_get (rq_phone user_data) '''', u_role = role,
                          u_max_students = dict_get (rq_max_students user_data) 20,
                          u_current_students_count = 0, u_password_hash = password_hash,
                          u_is_active = (if role = ''teacher'' then False else True),
                          u_created_at = now, u_updated_at = now, u_last_login = None\<rparr> of
                    Inl e \<Rightarrow> (Inl (RegisterError e), d)
                  | Inr d1 \<Rightarrow>
                      (case login_with_email_password H self email password d1 device_info now rnd of
                         (Inl e, d2) \<Rightarrow> (Inl e, d2)
                       | (Inr login_result, d2) \<Rightarrow>
                           (Inr (login_result\<lparr>r_message :=
                                   (if role = ''teacher'' then RegisteredAwaitActivation
                                    else RegisteredActivated)\<rparr>), d2)))))"

subsection \<open>get\_current\_user\<close>

definition is_token_revoked :: "string \<Rightarrow> db \<Rightarrow> bool" where
  "is_token_revoked jti d =
    (find (\<lambda>t. rt_id t = jti \<and> rt_is_revoked t) (tbl_refresh_tokens d) \<noteq> None)"

definition get_current_user :: "AuthService \<Rightarrow> token \<Rightarrow> db \<Rightarrow> time \<Rightarrow> error + user_dict" where
  "get_current_user self token d now =
    (case decode_token self token now of
       Inl e \<Rightarrow> Inl (GetUserError e)
     | Inr payload \<Rightarrow>
         if c_type payload \<noteq> Some ''access'' then Inl (GetUserError WrongTokenType)
         else case c_sub payload of
           None \<Rightarrow> Inl (GetUserError BadToken)
         | Some user_id \<Rightarrow>
             if user_id = [] then Inl (GetUserError BadToken)
             else if (case c_jti payload of
                        None \<Rightarrow> False
                      | Some token_jti \<Rightarrow> token_jti \<noteq> [] \<and> is_token_revoked token_jti d)
               then Inl (GetUserError TokenRevoked)
             else case find (\<lambda>u. u_id u = user_id) (tbl_users d) of
                    None \<Rightarrow> Inl (GetUserError UserNotFound)
                  | Some user \<Rightarrow>
                      if \<not> u_is_active user then Inl (GetUserError UserInactive)
                      else Inr (user_to_dict user))"

definition validate_token :: "AuthService \<Rightarrow> token \<Rightarrow> db \<Rightarrow> time \<Rightarrow> bool" where
  "validate_token self token d now =
    (case get_current_user self token d now of Inl e \<Rightarrow> False | Inr user \<Rightarrow> True)"

subsection \<open>refresh\_tokens\<close>

text \<open>
  The method has two parts. \<open>refresh_lookup\<close> is everything up to the two queries: it
  decodes the token and reads the stored record and the user. \<open>refresh_rotate\<close> is the rest:
  it mints the new pair, marks the record it was given as revoked and inserts the new
  record; \<^verbatim>\<open>_save_refresh_token\<close> commits both writes together, and a failing insert leaves
  neither. One request runs the two parts one after the other on the same database:
  that is \<open>refresh_tokens\<close>. Requests in flight at the same time interleave their parts:
  a query reads the rows committed when it runs, and the write of a loaded record is an
  \<^verbatim>\<open>UPDATE\<close> by primary key, whatever the row holds by then.
\<close>

definition refresh_lookup ::
  "AuthService \<Rightarrow> token \<Rightarrow> db \<Rightarrow> time \<Rightarrow> error + RefreshToken \<times> User" where
  "refresh_lookup self refresh_token d now =
    (case decode_token self refresh_token now of
       Inl e \<Rightarrow> Inl e
     | Inr payload \<Rightarrow>
         if c_type payload \<noteq> Some ''refresh'' then Inl WrongTokenType
         else case (c_sub payload, c_jti payload) of
           (Some user_id, Some token_jti) \<Rightarrow>
             if user_id = [] \<or> token_jti = [] then Inl BadToken
             else (case find (\<lambda>t. rt_id t = token_jti \<and> rt_user_id t = user_id \<and>
                                   rt_is_revoked t = False \<and> rt_expires_at t > now)
                          (tbl_refresh_tokens d) of
                     None \<Rightarrow> Inl RefreshNotFoundOrExpired
                   | Some stored_token \<Rightarrow>
                       (case find (\<lambda>u. u_id u = user_id) (tbl_users d) of
                          None \<Rightarrow> Inl UserNotFoundOrInactive
                        | Some user \<Rightarrow>
                            if \<not> u_is_active user then Inl UserNotFoundOrInactive
                            else Inr (stored_token, user)))
         | _ \<Rightarrow> Inl BadToken)"

definition refresh_rotate ::
  "digest \<Rightarrow> AuthService \<Rightarrow> RefreshToken \<Rightarrow> User \<Rightarrow> db \<Rightarrow> (string \<times> string) list option \<Rightarrow>
   time \<Rightarrow> draws \<Rightarrow> (error + user_dict token_response) \<times> db" where
  "refresh_rotate H self stored_token user d device_info now rnd =
    (let new_access_token =
           create_access_token self (token_data_of user) None (on_the_second now) (uuid_access rnd);
         (new_refresh_token, new_refresh_token_id) =
           create_refresh_token self (u_id user) now (uuid_refresh rnd);
         d1 = revoke_token d (rt_id stored_token) now
     in case save_refresh_token H self d1 (u_id user) new_refresh_token_id device_info
               None now (rnd_token rnd) of
          Inl e \<Rightarrow> (Inl (RefreshError e), d)
        | Inr d2 \<Rightarrow>
            (Inr \<lparr>r_access_token = new_access_token,
                  r_refresh_token = new_refresh_token,
                  r_token_type = ''bearer'',
                  r_expires_in = access_token_expire_minutes self * 60,
                  r_user = user_to_dict user,
                  r_message = TokensRefreshed\<rparr>, d2))"

definition refresh_tokens ::
  "digest \<Rightarrow> AuthService \<Rightarrow> token \<Rightarrow> db \<Rightarrow> (string \<times> string) list option \<Rightarrow>
   time \<Rightarrow> draws \<Rightarrow> (error + user_dict token_response) \<times> db" where
  "refresh_tokens H self refresh_token d device_info now rnd =
    (case refresh_lookup self refresh_token d now of
       Inl e \<Rightarrow> (Inl (RefreshError e), d)
     | Inr (stored_token, user) \<Rightarrow>
         refresh_rotate H self stored_token user d device_info now rnd)"

definition refresh_token ::
  "digest \<Rightarrow> AuthService \<Rightarrow> token \<Rightarrow> db \<Rightarrow> time \<Rightarrow> draws \<Rightarrow>
   (error + user_dict token_response) \<times> db" where
  "refresh_token H self tok d now rnd = refresh_tokens H self tok d None now rnd"

subsection \<open>logout and logout\_all\_devices\<close>

definition logout_all_devices :: "string \<Rightarrow> db \<Rightarrow> time \<Rightarrow> (error + message) \<times> db" where
  "logout_all_devices user_id d now =
    (Inr LoggedOutAll,
     d\<lparr>tbl_refresh_tokens :=
         map (\<lambda>t. if rt_user_id t = user_id \<and> rt_is_revoked t = False then revoke now t else t)
           (tbl_refresh_tokens d)\<rparr>)"

definition logout :: "AuthService \<Rightarrow> token \<Rightarrow> db \<Rightarrow> time \<Rightarrow> (error + message) \<times> db" where
  "logout self token d now =
    (case get_current_user self token d now of
       Inl e \<Rightarrow> (Inl (LogoutError e), d)
     | Inr user \<Rightarrow>
         (case logout_all_devices (d_id user) d now of
            (Inl e, d1) \<Rightarrow> (Inl (LogoutError e), d1)
          | (Inr m, d1) \<Rightarrow> (Inr m, d1)))"

subsection \<open>Passwords: change and reset\<close>

definition change_password ::
  "digest \<Rightarrow> AuthService \<Rightarrow> token \<Rightarrow> string \<Rightarrow> db \<Rightarrow> time \<Rightarrow> draws \<Rightarrow>
   (error + message) \<times> db" where
  "change_password H self token new_password d now rnd =
    (case get_current_user self token d now of
       Inl e \<Rightarrow> (Inl e, d)
     | Inr current_user \<Rightarrow>
         let user_id = d_id current_user in
         if user_id = [] then (Inl CannotDetermineUser, d)
         else case find (\<lambda>u. u_id u = user_id) (tbl_users d) of
           None \<Rightarrow> (Inl UserNotFound, d)
         | Some user \<Rightarrow>
             if length new_password < 6 then (Inl NewPasswordTooShort, d)
             else (case hash_password H new_password (rnd_password rnd) of
                     Inl e \<Rightarrow> (Inl e, d)
                   | Inr h \<Rightarrow>
                       let d1 = update_user d (u_id user) (\<lambda>u. u\<lparr>u_password_hash := h\<rparr>) now
                       in (case logout_all_devices user_id d1 now of
                             (Inl e, d2) \<Rightarrow> (Inl e, d)
                           | (Inr m, d2) \<Rightarrow> (Inr PasswordChanged, d2))))"

definition reset_password_request ::
  "AuthService \<Rightarrow> string \<Rightarrow> db \<Rightarrow> time \<Rightarrow> error + message \<times> token" where
  "reset_password_request self email d now =
    (case find (\<lambda>u. u_email u = email) (tbl_users d) of
       None \<Rightarrow> Inl (ResetRequestError EmailNotFound)
     | Some user \<Rightarrow>
         let reset_token_data =
               empty_claims\<lparr>c_sub := Some (u_id user), c_type := Some ''password_reset'',
                 c_exp := Some (now + minutes (password_reset_token_expire_minutes self)),
                 c_iat := Some now\<rparr>
         in Inr (ResetMailSent, jwt_encode reset_token_data (secret_key self)))"

definition reset_password :: "AuthService \<Rightarrow> string \<Rightarrow> db \<Rightarrow> time \<Rightarrow> error + message \<times> token" where
  "reset_password self email d now = reset_password_request self email d now"

definition reset_password_with_token ::
  "digest \<Rightarrow> AuthService \<Rightarrow> token \<Rightarrow> string \<Rightarrow> db \<Rightarrow> time \<Rightarrow> draws \<Rightarrow>
   (error + message) \<times> db" where
  "reset_password_with_token H self reset_token new_password d now rnd =
    (case jwt_decode reset_token (secret_key self) now of
       Inl ExpiredSignatureError \<Rightarrow> (Inl ResetTokenExpired, d)
     | Inl InvalidTokenError \<Rightarrow> (Inl ResetTokenInvalid, d)
     | Inr payload \<Rightarrow>
         if c_type payload \<noteq> Some ''password_reset'' then (Inl WrongTokenType, d)
         else case c_sub payload of
           None \<Rightarrow> (Inl BadToken, d)
         | Some user_id \<Rightarrow>
             if user_id = [] then (Inl BadToken, d)
             else case find (\<lambda>u. u_id u = user_id) (tbl_users d) of
               None \<Rightarrow> (Inl UserNotFound, d)
             | Some user \<Rightarrow>
                 if length new_password < 6 then (Inl NewPasswordTooShort, d)
                 else (case hash_password H new_password (rnd_password rnd) of
                         Inl e \<Rightarrow> (Inl e, d)
                       | Inr h \<Rightarrow>
                           let d1 = update_user d (u_id user) (\<lambda>u. u\<lparr>u_password_hash := h\<rparr>) now
                           in (case logout_all_devices user_id d1 now of
                                 (Inl e, d2) \<Rightarrow> (Inl e, d)
                               | (Inr m, d2) \<Rightarrow> (Inr PasswordReset, d2))))"

subsection \<open>Runs of the session engine\<close>

text \<open>
  A call of one of the operations with its arguments, its clock reading and its random
  draws; \<open>run\<close> is the database a call leaves behind, whether it returned or raised.
\<close>

datatype call =
    Login string string "(string \<times> string) list option" time draws
  | Register register_request "(string \<times> string) list option" time draws
  | GetCurrentUser token time
  | Refresh token "(string \<times> string) list option" time draws
  | Logout token time
  | LogoutAllDevices string time
  | ChangePassword token string time draws
  | ResetPasswordRequest string time
  | ResetPasswordWithToken token string time draws

fun run :: "digest \<Rightarrow> AuthService \<Rightarrow> db \<Rightarrow> call \<Rightarrow> db" where
  "run H self d (Login email password info now rnd) =
     snd (login_with_email_password H self email password d info now rnd)"
| "run H self d (Register user_data info now rnd) =
     snd (register H self user_data d info now rnd)"
| "run H self d (GetCurrentUser token now) = d"
| "run H self d (Refresh token info now rnd) =
     snd (refresh_tokens H self token d info now rnd)"
| "run H self d (Logout token now) = snd (logout self token d now)"
| "run H self d (LogoutAllDevices user_id now) = snd (logout_all_devices user_id d now)"
| "run H self d (ChangePassword token new_password now rnd) =
     snd (change_password H self token new_password d now rnd)"
| "run H self d (ResetPasswordRequest email now) = d"
| "run H self d (ResetPasswordWithToken token new_password now rnd) =
     snd (reset_password_with_token H self token new_password d now rnd)"

definition run_all :: "digest \<Rightarrow> AuthService \<Rightarrow> db \<Rightarrow> call list \<Rightarrow> db" where
  "run_all H self d calls = foldl (run H self) d calls"

definition revoked_kept :: "RefreshToken list \<Rightarrow> RefreshToken list \<Rightarrow> bool" where
  \<comment> \<open>every row of the first table is still there, under its id, and revoked if it was\<close>
  "revoked_kept old new =
    (length old \<le> length new \<and>
     list_all (\<lambda>i. rt_id (new ! i) = rt_id (old ! i) \<and>
                   (rt_is_revoked (old ! i) \<longrightarrow> rt_is_revoked (new ! i)))
       [0..<length old])"

subsection \<open>Sample data\<close>

text \<open>
  A small database for the concrete instances: one active teacher whose password is
  \<^verbatim>\<open>secret\<close>, a refresh record that was revoked earlier and a live one; the refresh and the
  access token of the live session; and the states two rotations lead to.
\<close>

definition sample_digest :: digest where
  "sample_digest password salt = rev (filter (\<lambda>c. c \<in> set bcrypt_alphabet) password)"

definition sample_service :: AuthService where
  "sample_service =
    \<lparr>secret_key = ''key'', access_token_expire_minutes = 1440,
     refresh_token_expire_days = 30, password_reset_token_expire_minutes = 30\<rparr>"

definition sample_rnd :: string where
  "sample_rnd = ''abcdefghijklmnopqrstuu''"

definition draws_of :: "string \<Rightarrow> string \<Rightarrow> string \<Rightarrow> draws" where
  "draws_of u a r =
    \<lparr>uuid_user = u, rnd_password = sample_rnd, uuid_access = a, uuid_refresh = r,
     rnd_token = sample_rnd\<rparr>"

definition alice :: User where
  "alice =
    \<lparr>u_id = ''u1'', u_email = ''a@u.edu'', u_full_name = ''Alice'', u_phone = '''',
     u_role = ''teacher'', u_max_students = 20, u_current_students_count = 0,
     u_password_hash = ''$2b$12$abcdefghijklmnopqrstuuterces'', u_is_active = True,
     u_created_at = 0, u_updated_at = 0, u_last_login = None\<rparr>"

definition guest :: User where
  "guest = alice\<lparr>u_id := ''u3'', u_email := ''g@u.edu'', u_role := ''guest''\<rparr>"

definition row0 :: RefreshToken where
  "row0 =
    \<lparr>rt_id = ''r0'', rt_user_id = ''u1'', rt_token_hash = ''$2b$12$abcdefghijklmnopqrstuu0r'',
     rt_device_info = [], rt_expires_at = 2591000, rt_created_at = -1000,
     rt_revoked_at = Some (-500), rt_is_revoked = True\<rparr>"

definition row1 :: RefreshToken where
  "row1 =
    \<lparr>rt_id = ''r1'', rt_user_id = ''u1'', rt_token_hash = ''$2b$12$abcdefghijklmnopqrstuu1r'',
     rt_device_info = [], rt_expires_at = 2592000, rt_created_at = 0,
     rt_revoked_at = None, rt_is_revoked = False\<rparr>"

definition row2 :: RefreshToken where
  "row2 =
    \<lparr>rt_id = ''r2'', rt_user_id = ''u1'', rt_token_hash = ''$2b$12$abcdefghijklmnopqrstuu2r'',
     rt_device_info = [], rt_expires_at = 2592010, rt_created_at = 10,
     rt_revoked_at = None, rt_is_revoked = False\<rparr>"

definition row3 :: RefreshToken where
  "row3 =
    \<lparr>rt_id = ''r3'', rt_user_id = ''u1'', rt_token_hash = ''$2b$12$abcdefghijklmnopqrstuu3r'',
     rt_device_info = [], rt_expires_at = 2592010, rt_created_at = 10,
     rt_revoked_at = None, rt_is_revoked = False\<rparr>"

definition db1 :: db where
  "db1 = \<lparr>tbl_users = [alice], tbl_refresh_tokens = [row0, row1], tbl_teacher_requests = []\<rparr>"

definition db2 :: db where
  "db2 =
    \<lparr>tbl_users = [alice], tbl_refresh_tokens = [row0, revoke 10 row1, row2],
     tbl_teacher_requests = []\<rparr>"

definition db3 :: db where
  "db3 =
    \<lparr>tbl_users = [alice], tbl_refresh_tokens = [row0, revoke 10 row1, row2, row3],
     tbl_teacher_requests = []\<rparr>"

definition db_logged_out :: db where
  "db_logged_out =
    \<lparr>tbl_users = [alice], tbl_refresh_tokens = [row0, revoke 10 row1],
     tbl_teacher_requests = []\<rparr>"

definition refresh1 :: token where
  "refresh1 = fst (create_refresh_token sample_service ''u1'' 0 ''r1'')"

definition access1 :: token where
  "access1 = create_access_token sample_service (token_data_of alice) None (on_the_second 0) ''a1''"

definition rotated :: "string \<Rightarrow> string \<Rightarrow> user_dict token_response" where
  \<comment> \<open>what a rotation at time 10 returns for the draws \<open>a\<close> and \<open>r\<close>\<close>
  "rotated a r =
    \<lparr>r_access_token = create_access_token sample_service (token_data_of alice) None (on_the_second 10) a,
     r_refresh_token = fst (create_refresh_token sample_service ''u1'' 10 r),
     r_token_type = ''bearer'', r_expires_in = 86400, r_user = user_to_dict alice,
     r_message = TokensRefreshed\<rparr>"


section \<open>Properties\<close>

subsection \<open>Evaluating the sample data\<close>

lemma salt_chars_sample: "salt_chars sample_rnd"
  by (simp add: salt_chars_def sample_rnd_def bcrypt_alphabet_def)

subsection \<open>Permissions of a role outside the closed set\<close>

text \<open>
  C5 (as stated): for a role outside admin, teacher and student, deriving the permissions
  fails with an unknown-role error instead of returning the map that is false everywhere.
  The code has no such error: for the role \<^verbatim>\<open>guest\<close> it returns the all-false map.
\<close>

theorem unknown_role_counterexample:
  "get_user_permissions guest =
    [(''can_view_students'', False), (''can_edit_students'', False),
     (''can_create_students'', False), (''can_delete_students'', False),
     (''can_view_communications'', False), (''can_create_communications'', False),
     (''can_edit_communications'', False), (''can_delete_communications'', False),
     (''can_manage_teachers'', False), (''can_manage_departments'', False),
     (''can_manage_system'', False)]"
  by (simp add: get_user_permissions_def guest_def alice_def no_permissions_def)

text \<open>
  C5 (amended): for every role outside admin, teacher and student,
  \<^verbatim>\<open>_get_user_permissions\<close> returns the map with every capability false; it raises nothing.
\<close>

theorem unknown_role_no_permissions:
  "u_role user \<notin> {''admin'', ''teacher'', ''student''} \<Longrightarrow>
   get_user_permissions user = no_permissions \<and>
   list_all (\<lambda>(key, granted). granted = False) (get_user_permissions user)"
  by (simp add: get_user_permissions_def no_permissions_def)

theorem unknown_role_no_permissions_witness:
  "u_role guest \<notin> {''admin'', ''teacher'', ''student''} \<and>
   get_user_permissions guest = no_permissions \<and>
   list_all (\<lambda>(key, granted). granted = False) (get_user_permissions guest)"
proof -
  have h: "u_role guest \<notin> {''admin'', ''teacher'', ''student''}"
    by (simp add: guest_def alice_def)
  from unknown_role_no_permissions [OF h] h show ?thesis by blast
qed

subsection \<open>Password hashing\<close>

lemma dollar_not_in_alphabet: "CHR ''$'' \<notin> set bcrypt_alphabet"
  by (simp add: bcrypt_alphabet_def)

lemma alphabet_no_dollar:
  "list_all (\<lambda>c. c \<in> set bcrypt_alphabet) s \<Longrightarrow> CHR ''$'' \<notin> set s"
  using dollar_not_in_alphabet by (auto simp: list_all_iff)

lemma split_dollar_no_dollar: "CHR ''$'' \<notin> set s \<Longrightarrow> split_dollar s = [s]"
  by (induction s) auto

lemma parse_cost_12: "parse_cost ''12'' = Some 12"
  by (simp add: parse_cost_def is_digit_def digit_value_def)

lemma salt_prefix_gensalt: "salt_prefix (''2b'', 12, rnd) = bcrypt_gensalt rnd"
  by (simp add: salt_prefix_def two_digits_def bcrypt_gensalt_def)

lemma read_salt_gensalt:
  assumes "salt_chars rnd" and "CHR ''$'' \<notin> set rest"
  shows "read_salt (bcrypt_gensalt rnd @ rest) = Some (''2b'', 12, rnd)"
proof -
  from assms(1) have len: "length rnd = 22" and "CHR ''$'' \<notin> set rnd"
    by (auto simp: salt_chars_def dest: alphabet_no_dollar)
  with assms(2) have "split_dollar (rnd @ rest) = [rnd @ rest]"
    by (simp add: split_dollar_no_dollar)
  moreover from len have "rnd @ rest \<noteq> []" by auto
  ultimately show ?thesis
    using assms(1) len by (simp add: read_salt_def bcrypt_gensalt_def parse_cost_12)
qed

lemma bcrypt_hash_gensalt:
  assumes "salt_chars rnd" and "CHR ''$'' \<notin> set rest"
  shows "bcrypt_hash H s (bcrypt_gensalt rnd @ rest) =
           Inr (bcrypt_gensalt rnd @ H s (bcrypt_gensalt rnd))"
  using read_salt_gensalt [OF assms] by (simp add: bcrypt_hash_def salt_prefix_gensalt)


lemma hash_token_gensalt:
  "salt_chars rnd \<Longrightarrow> hash_token H t rnd = Inr (bcrypt_gensalt rnd @ H t (bcrypt_gensalt rnd))"
  using bcrypt_hash_gensalt [of rnd "[]" H t] by (simp add: hash_token_def)

lemma hash_token_ok: "salt_chars rnd \<Longrightarrow> \<exists>h. hash_token H t rnd = Inr h"
  by (simp add: hash_token_gensalt)

lemma sample_hash_token:
  "hash_token sample_digest t sample_rnd =
     Inr (''$2b$12$abcdefghijklmnopqrstuu'' @ rev (filter (\<lambda>c. c \<in> set bcrypt_alphabet) t))"
  using hash_token_gensalt [OF salt_chars_sample, of sample_digest t]
  by (simp add: bcrypt_gensalt_def sample_rnd_def sample_digest_def)

text \<open>
  C6 (as stated): for every secret and every string \<open>h\<close>, \<^verbatim>\<open>verify\<close> never raises, and on a
  malformed hash string it returns false. \<^verbatim>\<open>_verify_password\<close> passes the stored string to
  \<^verbatim>\<open>bcrypt.checkpw\<close> with no handler around it, and the library raises on a string it can
  read no salt from.
\<close>

theorem verify_malformed_hash_counterexample:
  "verify_password sample_digest ''secret'' ''not-a-hash'' = Inl BcryptValueError"
  by (simp add: verify_password_def bcrypt_checkpw_def bcrypt_hashpw_def bcrypt_hash_def
        read_salt_def)

text \<open>
  C6 (amended): \<^verbatim>\<open>_verify_password\<close> is not total. For every secret and every hash string
  that bcrypt can read no salt from (a malformed string), it raises the library's
  \<^verbatim>\<open>ValueError\<close>; it does not return false.
\<close>

theorem verify_raises_without_salt:
  "read_salt h = None \<Longrightarrow> verify_password H s h = Inl BcryptValueError"
  by (simp add: verify_password_def bcrypt_checkpw_def bcrypt_hashpw_def bcrypt_hash_def)

theorem verify_raises_without_salt_witness:
  "read_salt ''$2b$03$abcdefghijklmnopqrstuu'' = None \<and>
   verify_password sample_digest ''secret'' ''$2b$03$abcdefghijklmnopqrstuu'' =
     Inl BcryptValueError"
proof -
  have h: "read_salt ''$2b$03$abcdefghijklmnopqrstuu'' = None"
    by (simp add: read_salt_def parse_cost_def is_digit_def digit_value_def)
  from verify_raises_without_salt [OF h, of sample_digest "''secret''"] h
  show ?thesis by simp
qed




subsection \<open>The token codec\<close>

lemma decode_token_Inr_iff:
  "decode_token self tok now = Inr p \<longleftrightarrow>
     tok = Signed (secret_key self) p \<and> (case c_exp p of None \<Rightarrow> True | Some e \<Rightarrow> now < e)"
  by (cases tok) (auto simp: decode_token_def split: option.splits sum.splits jwt_error.splits)

lemma decode_token_Signed:
  "decode_token self (Signed k p) now =
     (if k \<noteq> secret_key self then Inl InvalidToken
      else case c_exp p of
             None \<Rightarrow> Inr p
           | Some e \<Rightarrow> if e \<le> now then Inl TokenExpired else Inr p)"
  by (simp add: decode_token_def split: option.splits)

lemma decode_later:
  "decode_token self tok now = Inr p \<Longrightarrow> decode_token self tok now2 \<noteq> Inl TokenExpired \<Longrightarrow>
   decode_token self tok now2 = Inr p"
  by (auto simp: decode_token_Inr_iff decode_token_Signed split: option.splits if_splits)

lemma timestamp_on_the_second [simp]: "timestamp (on_the_second s) = s"
  by (simp add: timestamp_def on_the_second_def)

lemma timestamp_add_on_the_second [simp]:
  "timestamp (on_the_second s + on_the_second k) = s + k"
  by (simp add: timestamp_def on_the_second_def)





subsection \<open>Queries\<close>

lemma find_Some_set: "find P xs = Some x \<Longrightarrow> x \<in> set xs \<and> P x"
  by (auto simp: find_Some_iff)

lemma find_not_None: "x \<in> set xs \<Longrightarrow> P x \<Longrightarrow> \<exists>y. find P xs = Some y"
  by (cases "find P xs") (auto simp: find_None_iff)


lemma find_map_id:
  assumes "\<And>u. u_id (f u) = u_id u"
  shows "find (\<lambda>u. u_id u = uid) (map f us) = map_option f (find (\<lambda>u. u_id u = uid) us)"
  using assms by (induction us) auto

lemma is_token_revoked_iff:
  "is_token_revoked j d \<longleftrightarrow> (\<exists>t\<in>set (tbl_refresh_tokens d). rt_id t = j \<and> rt_is_revoked t)"
  by (auto simp: is_token_revoked_def find_None_iff)

subsection \<open>authenticate: get\_current\_user\<close>

lemma get_current_user_Inr:
  assumes "get_current_user self tok d now = Inr user"
  obtains p uid u where "decode_token self tok now = Inr p" "c_type p = Some ''access''"
    "c_sub p = Some uid" "uid \<noteq> []"
    "\<not> (case c_jti p of None \<Rightarrow> False | Some j \<Rightarrow> j \<noteq> [] \<and> is_token_revoked j d)"
    "find (\<lambda>u. u_id u = uid) (tbl_users d) = Some u" "u_is_active u" "user = user_to_dict u"
  using assms
  by (auto simp: get_current_user_def split: sum.splits option.splits if_splits)

lemma get_current_user_eq:
  assumes "decode_token self tok now = Inr p" "c_type p = Some ''access''"
    "c_sub p = Some uid" "uid \<noteq> []"
    "\<not> (case c_jti p of None \<Rightarrow> False | Some j \<Rightarrow> j \<noteq> [] \<and> is_token_revoked j d)"
    "find (\<lambda>u. u_id u = uid) (tbl_users d) = Some u"
  shows "get_current_user self tok d now =
           (if u_is_active u then Inr (user_to_dict u) else Inl (GetUserError UserInactive))"
  using assms by (simp add: get_current_user_def)

lemma sample_payload:
  "decode_token sample_service access1 now =
     (if 86400 \<le> now then Inl TokenExpired
      else Inr ((token_data_of alice)\<lparr>c_exp := Some 86400, c_iat := Some 0,
                  c_type := Some ''access'', c_jti := Some ''a1''\<rparr>))"
  by (simp add: access1_def sample_service_def create_access_token_def jwt_encode_def
        decode_token_def minutes_def timestamp_def on_the_second_def)

lemma sample_authenticated: "get_current_user sample_service access1 db1 10 = Inr (user_to_dict alice)"
  by (simp add: get_current_user_def sample_payload token_data_of_def empty_claims_def
        is_token_revoked_def db1_def row0_def row1_def alice_def)

text \<open>
  C4: \<^verbatim>\<open>get_current_user\<close> returns an account only if the token decodes, its type is
  \<^verbatim>\<open>access\<close> and the account of its subject is active in the database at the call. When
  the account is deactivated afterwards (\<^verbatim>\<open>update_user(id, {"is_active": False})\<close>), the same
  token, still unexpired, is rejected with the error for an inactive account.
\<close>

theorem authenticate_requires_active_account:
  assumes ok: "get_current_user self tok d now = Inr user"
  shows "(\<exists>p u. decode_token self tok now = Inr p \<and> c_type p = Some ''access'' \<and>
            c_sub p = Some (u_id u) \<and> u \<in> set (tbl_users d) \<and> u_is_active u \<and>
            user = user_to_dict u) \<and>
         (decode_token self tok now2 \<noteq> Inl TokenExpired \<longrightarrow>
            get_current_user self tok
              (update_user d (d_id user) (\<lambda>u. u\<lparr>u_is_active := False\<rparr>) now1) now2 =
            Inl (GetUserError UserInactive))"
proof -
  from ok obtain p uid u where
    dec: "decode_token self tok now = Inr p" and ty: "c_type p = Some ''access''" and
    sub: "c_sub p = Some uid" and ne: "uid \<noteq> []" and
    nrev: "\<not> (case c_jti p of None \<Rightarrow> False | Some j \<Rightarrow> j \<noteq> [] \<and> is_token_revoked j d)" and
    fu: "find (\<lambda>u. u_id u = uid) (tbl_users d) = Some u" and act: "u_is_active u" and
    user: "user = user_to_dict u"
    by (rule get_current_user_Inr)
  from fu have uid: "u_id u = uid" and mem: "u \<in> set (tbl_users d)"
    by (auto dest: find_Some_set)
  have first: "\<exists>p u. decode_token self tok now = Inr p \<and> c_type p = Some ''access'' \<and>
            c_sub p = Some (u_id u) \<and> u \<in> set (tbl_users d) \<and> u_is_active u \<and>
            user = user_to_dict u"
    using dec ty sub uid mem act user by blast
  let ?d = "update_user d (d_id user) (\<lambda>u. u\<lparr>u_is_active := False\<rparr>) now1"
  have second: "get_current_user self tok ?d now2 = Inl (GetUserError UserInactive)"
    if live: "decode_token self tok now2 \<noteq> Inl TokenExpired"
  proof -
    have did: "d_id user = uid" using user uid by (simp add: user_to_dict_def)
    have dec2: "decode_token self tok now2 = Inr p" by (rule decode_later [OF dec live])
    have tok: "tbl_refresh_tokens ?d = tbl_refresh_tokens d" by (simp add: update_user_def)
    have nrev2: "\<not> (case c_jti p of None \<Rightarrow> False | Some j \<Rightarrow> j \<noteq> [] \<and> is_token_revoked j ?d)"
      using nrev by (simp add: is_token_revoked_def tok split: option.splits)
    have "find (\<lambda>u. u_id u = uid) (tbl_users ?d) =
            Some (u\<lparr>u_is_active := False, u_updated_at := now1\<rparr>)"
      using fu uid by (simp add: update_user_def did find_map_id)
    from get_current_user_eq [OF dec2 ty sub ne nrev2 this] show ?thesis by simp
  qed
  from first second show ?thesis by blast
qed

theorem authenticate_requires_active_account_witness:
  "get_current_user sample_service access1 db1 10 = Inr (user_to_dict alice) \<and>
   decode_token sample_service access1 20 \<noteq> Inl TokenExpired \<and>
   get_current_user sample_service access1
     (update_user db1 ''u1'' (\<lambda>u. u\<lparr>u_is_active := False\<rparr>) 15) 20 =
   Inl (GetUserError UserInactive)"
proof -
  have live: "decode_token sample_service access1 20 \<noteq> Inl TokenExpired"
    by (simp add: sample_payload)
  have "d_id (user_to_dict alice) = ''u1''" by (simp add: user_to_dict_def alice_def)
  with authenticate_requires_active_account [OF sample_authenticated, of 20 15] live
    sample_authenticated
  show ?thesis by simp
qed

subsection \<open>logout\<close>

lemma logout_Inr:
  assumes "logout self tok d now = (Inr m, d1)"
  obtains user where "get_current_user self tok d now = Inr user"
    "d1 = snd (logout_all_devices (d_id user) d now)"
  using assms by (auto simp: logout_def split: sum.splits prod.splits)

text \<open>
  C7: a successful logout leaves every refresh record of the token's subject revoked, and
  the access token itself keeps working: while it is unexpired, \<^verbatim>\<open>get_current_user\<close> returns
  the same account after the logout as before. The token id of an access token is a fresh
  \<^verbatim>\<open>uuid4\<close>, never the id of a refresh record; that is the second premise of the last part.
\<close>

theorem logout_blocks_refresh_only:
  assumes lo: "logout self tok d now = (Inr m, d1)"
  shows "\<exists>user p. get_current_user self tok d now = Inr user \<and>
           decode_token self tok now = Inr p \<and>
           (\<forall>t\<in>set (tbl_refresh_tokens d1). rt_user_id t = d_id user \<longrightarrow> rt_is_revoked t) \<and>
           (decode_token self tok now2 \<noteq> Inl TokenExpired \<and>
            (\<forall>j. c_jti p = Some j \<longrightarrow> j \<notin> set (map rt_id (tbl_refresh_tokens d))) \<longrightarrow>
              get_current_user self tok d1 now2 = Inr user)"
proof -
  from lo obtain user where ok: "get_current_user self tok d now = Inr user" and
    d1: "d1 = snd (logout_all_devices (d_id user) d now)"
    by (rule logout_Inr)
  from ok obtain p uid u where
    dec: "decode_token self tok now = Inr p" and ty: "c_type p = Some ''access''" and
    sub: "c_sub p = Some uid" and ne: "uid \<noteq> []" and
    fu: "find (\<lambda>u. u_id u = uid) (tbl_users d) = Some u" and act: "u_is_active u" and
    user: "user = user_to_dict u"
    by (rule get_current_user_Inr)
  have all: "\<forall>t\<in>set (tbl_refresh_tokens d1). rt_user_id t = d_id user \<longrightarrow> rt_is_revoked t"
    by (auto simp: d1 logout_all_devices_def revoke_def)
  have ids: "map rt_id (tbl_refresh_tokens d1) = map rt_id (tbl_refresh_tokens d)"
    by (simp add: d1 logout_all_devices_def revoke_def comp_def)
  have users: "tbl_users d1 = tbl_users d" by (simp add: d1 logout_all_devices_def)
  have again: "get_current_user self tok d1 now2 = Inr user"
    if live: "decode_token self tok now2 \<noteq> Inl TokenExpired"
      and fresh: "\<forall>j. c_jti p = Some j \<longrightarrow> j \<notin> set (map rt_id (tbl_refresh_tokens d))"
  proof -
    have dec2: "decode_token self tok now2 = Inr p" by (rule decode_later [OF dec live])
    have nrev: "\<not> (case c_jti p of None \<Rightarrow> False | Some j \<Rightarrow> j \<noteq> [] \<and> is_token_revoked j d1)"
    proof (cases "c_jti p")
      case None
      then show ?thesis by simp
    next
      case (Some j)
      with fresh have "j \<notin> set (map rt_id (tbl_refresh_tokens d1))" by (simp add: ids)
      then have "\<not> is_token_revoked j d1" by (auto simp: is_token_revoked_iff)
      with Some show ?thesis by simp
    qed
    have "find (\<lambda>u. u_id u = uid) (tbl_users d1) = Some u" using fu users by simp
    from get_current_user_eq [OF dec2 ty sub ne nrev this] act user show ?thesis by simp
  qed
  from ok dec all again show ?thesis by blast
qed

theorem logout_blocks_refresh_only_witness:
  "logout sample_service access1 db1 10 = (Inr LoggedOutAll, db_logged_out) \<and>
   decode_token sample_service access1 20 \<noteq> Inl TokenExpired \<and>
   ''a1'' \<notin> set (map rt_id (tbl_refresh_tokens db1)) \<and>
   map rt_user_id (tbl_refresh_tokens db_logged_out) = [''u1'', ''u1''] \<and>
   map rt_is_revoked (tbl_refresh_tokens db_logged_out) = [True, True] \<and>
   get_current_user sample_service access1 db_logged_out 20 = Inr (user_to_dict alice)"
proof -
  have lo: "logout sample_service access1 db1 10 = (Inr LoggedOutAll, db_logged_out)"
    by (simp add: logout_def sample_authenticated)
       (simp add: logout_all_devices_def user_to_dict_def db1_def db_logged_out_def
          row0_def row1_def alice_def)
  have live: "decode_token sample_service access1 20 \<noteq> Inl TokenExpired"
    by (simp add: sample_payload)
  have fresh: "''a1'' \<notin> set (map rt_id (tbl_refresh_tokens db1))"
    by (simp add: db1_def row0_def row1_def)
  from logout_blocks_refresh_only [OF lo, of 20] obtain user p where
    u: "get_current_user sample_service access1 db1 10 = Inr user" and
    p: "decode_token sample_service access1 10 = Inr p" and
    all: "\<forall>t\<in>set (tbl_refresh_tokens db_logged_out). rt_user_id t = d_id user \<longrightarrow> rt_is_revoked t" and
    again: "decode_token sample_service access1 20 \<noteq> Inl TokenExpired \<and>
            (\<forall>j. c_jti p = Some j \<longrightarrow> j \<notin> set (map rt_id (tbl_refresh_tokens db1))) \<longrightarrow>
              get_current_user sample_service access1 db_logged_out 20 = Inr user"
    by blast
  from u have user: "user = user_to_dict alice" by (simp add: sample_authenticated)
  from p have "c_jti p = Some ''a1''" by (auto simp: sample_payload)
  with again live fresh have "get_current_user sample_service access1 db_logged_out 20 = Inr user"
    by simp
  moreover have "map rt_user_id (tbl_refresh_tokens db_logged_out) = [''u1'', ''u1'']"
    by (simp add: db_logged_out_def row0_def row1_def revoke_def)
  moreover have "map rt_is_revoked (tbl_refresh_tokens db_logged_out) = [True, True]"
    using all user
    by (simp add: db_logged_out_def row0_def row1_def revoke_def user_to_dict_def alice_def)
  ultimately show ?thesis using lo live fresh user by simp
qed

subsection \<open>refresh: lookup and rotation\<close>

lemma refresh_lookup_Inr:
  assumes "refresh_lookup self tok d now = Inr (stored, user)"
  shows "\<exists>p. tok = Signed (secret_key self) p \<and> c_type p = Some ''refresh'' \<and>
            c_sub p = Some (u_id user) \<and> c_jti p = Some (rt_id stored)"
    and "u_id user \<noteq> []" and "rt_id stored \<noteq> []"
    and "stored \<in> set (tbl_refresh_tokens d)" and "rt_user_id stored = u_id user"
    and "\<not> rt_is_revoked stored" and "now < rt_expires_at stored"
    and "find (\<lambda>u. u_id u = u_id user) (tbl_users d) = Some user" and "u_is_active user"
proof -
  from assms obtain p uid jti where
    dec: "decode_token self tok now = Inr p" and ty: "c_type p = Some ''refresh''" and
    sub: "c_sub p = Some uid" and jti: "c_jti p = Some jti" and ne: "uid \<noteq> []" "jti \<noteq> []" and
    ft: "find (\<lambda>t. rt_id t = jti \<and> rt_user_id t = uid \<and> rt_is_revoked t = False \<and>
                   rt_expires_at t > now) (tbl_refresh_tokens d) = Some stored" and
    fu: "find (\<lambda>u. u_id u = uid) (tbl_users d) = Some user" and act: "u_is_active user"
    by (auto simp: refresh_lookup_def split: sum.splits option.splits if_splits)
  from ft have st: "stored \<in> set (tbl_refresh_tokens d)" "rt_id stored = jti"
      "rt_user_id stored = uid" "\<not> rt_is_revoked stored" "now < rt_expires_at stored"
    by (auto dest: find_Some_set)
  from fu have us: "u_id user = uid" by (auto dest: find_Some_set)
  show "\<exists>p. tok = Signed (secret_key self) p \<and> c_type p = Some ''refresh'' \<and>
            c_sub p = Some (u_id user) \<and> c_jti p = Some (rt_id stored)"
    using dec ty sub jti st us by (auto simp: decode_token_Inr_iff)
  show "u_id user \<noteq> []" "rt_id stored \<noteq> []" using ne st us by auto
  show "stored \<in> set (tbl_refresh_tokens d)" "rt_user_id stored = u_id user"
    "\<not> rt_is_revoked stored" "now < rt_expires_at stored" using st us by auto
  show "find (\<lambda>u. u_id u = u_id user) (tbl_users d) = Some user" using fu us by simp
  show "u_is_active user" by (rule act)
qed

lemma save_refresh_token_Inr:
  assumes "save_refresh_token H self d uid tid info None now rnd = Inr d'"
  shows "tid \<notin> set (map rt_id (tbl_refresh_tokens d))"
    and "\<exists>h. d' = d\<lparr>tbl_refresh_tokens := tbl_refresh_tokens d @
            [\<lparr>rt_id = tid, rt_user_id = uid, rt_token_hash = h,
              rt_device_info = (case info of None \<Rightarrow> [] | Some i \<Rightarrow> i),
              rt_expires_at = now + days (refresh_token_expire_days self), rt_created_at = now,
              rt_revoked_at = None, rt_is_revoked = False\<rparr>]\<rparr>"
  using assms
  by (auto simp: save_refresh_token_def add_refresh_token_def split: sum.splits if_splits)

lemma save_refresh_token_ok:
  assumes "salt_chars rnd" "tid \<notin> set (map rt_id (tbl_refresh_tokens d))"
  shows "\<exists>d'. save_refresh_token H self d uid tid info ex now rnd = Inr d'"
  using assms hash_token_ok [of rnd H tid]
  by (auto simp: save_refresh_token_def add_refresh_token_def split: sum.splits)

lemma revoke_token_ids [simp]:
  "map rt_id (tbl_refresh_tokens (revoke_token d tid now)) = map rt_id (tbl_refresh_tokens d)"
  by (simp add: revoke_token_def revoke_def comp_def)

lemma revoke_token_users [simp]: "tbl_users (revoke_token d tid now) = tbl_users d"
  by (simp add: revoke_token_def)

lemma refresh_rotate_Inr:
  assumes "refresh_rotate H self stored user d info now rnd = (Inr resp, d1)"
  shows "uuid_refresh rnd \<notin> set (map rt_id (tbl_refresh_tokens d))"
    and "\<exists>h. d1 = (revoke_token d (rt_id stored) now)\<lparr>tbl_refresh_tokens :=
            tbl_refresh_tokens (revoke_token d (rt_id stored) now) @
            [\<lparr>rt_id = uuid_refresh rnd, rt_user_id = u_id user, rt_token_hash = h,
              rt_device_info = (case info of None \<Rightarrow> [] | Some i \<Rightarrow> i),
              rt_expires_at = now + days (refresh_token_expire_days self), rt_created_at = now,
              rt_revoked_at = None, rt_is_revoked = False\<rparr>]\<rparr>"
    and "r_refresh_token resp = fst (create_refresh_token self (u_id user) now (uuid_refresh rnd))"
proof -
  from assms obtain d2 where
    sv: "save_refresh_token H self (revoke_token d (rt_id stored) now) (u_id user)
           (uuid_refresh rnd) info None now (rnd_token rnd) = Inr d2" and d: "d1 = d2" and
    r: "r_refresh_token resp = fst (create_refresh_token self (u_id user) now (uuid_refresh rnd))"
    by (auto simp: refresh_rotate_def Let_def create_refresh_token_def
          split: sum.splits prod.splits)
  from save_refresh_token_Inr [OF sv] d r
  show "uuid_refresh rnd \<notin> set (map rt_id (tbl_refresh_tokens d))"
    and "\<exists>h. d1 = (revoke_token d (rt_id stored) now)\<lparr>tbl_refresh_tokens :=
            tbl_refresh_tokens (revoke_token d (rt_id stored) now) @
            [\<lparr>rt_id = uuid_refresh rnd, rt_user_id = u_id user, rt_token_hash = h,
              rt_device_info = (case info of None \<Rightarrow> [] | Some i \<Rightarrow> i),
              rt_expires_at = now + days (refresh_token_expire_days self), rt_created_at = now,
              rt_revoked_at = None, rt_is_revoked = False\<rparr>]\<rparr>"
    and "r_refresh_token resp = fst (create_refresh_token self (u_id user) now (uuid_refresh rnd))"
    by simp_all
qed

lemma refresh_rotate_ok:
  assumes "salt_chars (rnd_token rnd)"
    and "uuid_refresh rnd \<notin> set (map rt_id (tbl_refresh_tokens d))"
  shows "\<exists>resp d'. refresh_rotate H self stored user d info now rnd = (Inr resp, d')"
proof -
  have "uuid_refresh rnd \<notin> set (map rt_id (tbl_refresh_tokens (revoke_token d (rt_id stored) now)))"
    using assms(2) by simp
  from save_refresh_token_ok [OF assms(1) this]
  obtain d2 where "save_refresh_token H self (revoke_token d (rt_id stored) now) (u_id user)
      (uuid_refresh rnd) info None now (rnd_token rnd) = Inr d2" by blast
  then show ?thesis
    by (simp add: refresh_rotate_def create_refresh_token_def Let_def)
qed

lemma refresh_tokens_Inr:
  assumes "refresh_tokens H self tok d info now rnd = (Inr resp, d1)"
  obtains stored user where "refresh_lookup self tok d now = Inr (stored, user)"
    and "refresh_rotate H self stored user d info now rnd = (Inr resp, d1)"
  using assms by (auto simp: refresh_tokens_def split: sum.splits prod.splits)

text \<open>After a rotation, a lookup with the old token finds no record.\<close>

lemma refresh_lookup_after_rotate:
  assumes lk: "refresh_lookup self r0 d now = Inr (stored, user)"
    and rot: "refresh_rotate H self stored user d info now rnd = (Inr resp, d1)"
    and live: "decode_token self r0 now2 \<noteq> Inl TokenExpired"
  shows "refresh_lookup self r0 d1 now2 = Inl RefreshNotFoundOrExpired"
proof -
  from refresh_lookup_Inr(1) [OF lk] obtain p where
    r0: "r0 = Signed (secret_key self) p" and ty: "c_type p = Some ''refresh''" and
    sub: "c_sub p = Some (u_id user)" and jti: "c_jti p = Some (rt_id stored)"
    by blast
  note facts = refresh_lookup_Inr(2-) [OF lk]
  from refresh_rotate_Inr(1,2) [OF rot] obtain h where
    fresh: "uuid_refresh rnd \<notin> set (map rt_id (tbl_refresh_tokens d))" and
    d1: "d1 = (revoke_token d (rt_id stored) now)\<lparr>tbl_refresh_tokens :=
            tbl_refresh_tokens (revoke_token d (rt_id stored) now) @
            [\<lparr>rt_id = uuid_refresh rnd, rt_user_id = u_id user, rt_token_hash = h,
              rt_device_info = (case info of None \<Rightarrow> [] | Some i \<Rightarrow> i),
              rt_expires_at = now + days (refresh_token_expire_days self), rt_created_at = now,
              rt_revoked_at = None, rt_is_revoked = False\<rparr>]\<rparr>"
    by blast
  have ne: "uuid_refresh rnd \<noteq> rt_id stored"
    using fresh facts(3) by auto
  have gone: "find (\<lambda>t. rt_id t = rt_id stored \<and> rt_user_id t = u_id user \<and>
                   rt_is_revoked t = False \<and> rt_expires_at t > now2)
                (tbl_refresh_tokens d1) = None"
    using ne by (auto simp: find_None_iff d1 revoke_token_def revoke_def)
  from live have "decode_token self r0 now2 = Inr p"
    by (auto simp: r0 decode_token_Signed split: option.splits if_splits)
  then show ?thesis
    using ty sub jti facts(1,2) gone by (simp add: refresh_lookup_def)
qed

lemma sample_lookup: "refresh_lookup sample_service refresh1 db1 10 = Inr (row1, alice)"
  by (simp add: refresh_lookup_def refresh1_def sample_service_def create_refresh_token_def
        jwt_encode_def decode_token_def empty_claims_def days_def Let_def
        db1_def row0_def row1_def alice_def)

lemma sample_rotate:
  "refresh_rotate sample_digest sample_service row1 alice db1 None 10 (draws_of u ''a2'' ''r2'') =
     (Inr (rotated ''a2'' ''r2''), db2)"
  by (simp add: refresh_rotate_def save_refresh_token_def add_refresh_token_def
        revoke_token_def revoke_def rotated_def create_refresh_token_def Let_def days_def
        sample_hash_token bcrypt_alphabet_def sample_service_def draws_of_def
        db1_def db2_def row0_def row1_def row2_def alice_def)

lemma sample_rotate_again:
  "refresh_rotate sample_digest sample_service row1 alice db2 None 10 (draws_of u ''a3'' ''r3'') =
     (Inr (rotated ''a3'' ''r3''), db3)"
  by (simp add: refresh_rotate_def save_refresh_token_def add_refresh_token_def
        revoke_token_def revoke_def rotated_def create_refresh_token_def Let_def days_def
        sample_hash_token bcrypt_alphabet_def sample_service_def draws_of_def
        db2_def db3_def row0_def row1_def row2_def row3_def alice_def)

lemma sample_refresh:
  "refresh_tokens sample_digest sample_service refresh1 db1 None 10 (draws_of u ''a2'' ''r2'') =
     (Inr (rotated ''a2'' ''r2''), db2)"
  by (simp add: refresh_tokens_def sample_lookup sample_rotate)

lemma sample_refresh1_live: "decode_token sample_service refresh1 20 \<noteq> Inl TokenExpired"
  by (simp add: refresh1_def sample_service_def create_refresh_token_def jwt_encode_def
        decode_token_def days_def Let_def)

text \<open>
  C1: refresh is not idempotent. When \<^verbatim>\<open>refresh_tokens\<close> has succeeded on \<open>r0\<close> and returned a
  pair with the refresh token \<open>r1\<close>, a second call with \<open>r0\<close> (made while \<open>r0\<close> is unexpired)
  fails with the error for a record that is missing or revoked and changes nothing, and a
  call with \<open>r1\<close> (made before \<open>r1\<close> expires, with draws as \<^verbatim>\<open>uuid4\<close> and \<^verbatim>\<open>gensalt\<close>
  deliver them) succeeds.
\<close>

theorem refresh_not_idempotent:
  assumes first: "refresh_tokens H self r0 d info now rnd = (Inr resp, d1)"
  shows "(decode_token self r0 now2 \<noteq> Inl TokenExpired \<longrightarrow>
            refresh_tokens H self r0 d1 info2 now2 rnd2 =
              (Inl (RefreshError RefreshNotFoundOrExpired), d1)) \<and>
         (uuid_refresh rnd \<noteq> [] \<and> now2 < now + days (refresh_token_expire_days self) \<and>
          uuid_refresh rnd2 \<notin> set (map rt_id (tbl_refresh_tokens d1)) \<and>
          salt_chars (rnd_token rnd2) \<longrightarrow>
            (\<exists>resp2 d2. refresh_tokens H self (r_refresh_token resp) d1 info2 now2 rnd2 =
               (Inr resp2, d2)))"
proof -
  from first obtain stored user where
    lk: "refresh_lookup self r0 d now = Inr (stored, user)" and
    rot: "refresh_rotate H self stored user d info now rnd = (Inr resp, d1)"
    by (rule refresh_tokens_Inr)
  note facts = refresh_lookup_Inr(2-) [OF lk]
  from refresh_rotate_Inr [OF rot] obtain h where
    d1: "d1 = (revoke_token d (rt_id stored) now)\<lparr>tbl_refresh_tokens :=
            tbl_refresh_tokens (revoke_token d (rt_id stored) now) @
            [\<lparr>rt_id = uuid_refresh rnd, rt_user_id = u_id user, rt_token_hash = h,
              rt_device_info = (case info of None \<Rightarrow> [] | Some i \<Rightarrow> i),
              rt_expires_at = now + days (refresh_token_expire_days self), rt_created_at = now,
              rt_revoked_at = None, rt_is_revoked = False\<rparr>]\<rparr>" and
    r1: "r_refresh_token resp = fst (create_refresh_token self (u_id user) now (uuid_refresh rnd))"
    by blast
  have users1: "tbl_users d1 = tbl_users d" by (simp add: d1)
  have a: "refresh_tokens H self r0 d1 info2 now2 rnd2 =
              (Inl (RefreshError RefreshNotFoundOrExpired), d1)"
    if "decode_token self r0 now2 \<noteq> Inl TokenExpired"
    using refresh_lookup_after_rotate [OF lk rot that] by (simp add: refresh_tokens_def)
  have b: "\<exists>resp2 d2. refresh_tokens H self (r_refresh_token resp) d1 info2 now2 rnd2 =
             (Inr resp2, d2)"
    if u: "uuid_refresh rnd \<noteq> []" and live: "now2 < now + days (refresh_token_expire_days self)"
      and fr2: "uuid_refresh rnd2 \<notin> set (map rt_id (tbl_refresh_tokens d1))"
      and salt: "salt_chars (rnd_token rnd2)"
  proof -
    let ?row = "\<lparr>rt_id = uuid_refresh rnd, rt_user_id = u_id user, rt_token_hash = h,
              rt_device_info = (case info of None \<Rightarrow> [] | Some i \<Rightarrow> i),
              rt_expires_at = now + days (refresh_token_expire_days self), rt_created_at = now,
              rt_revoked_at = None, rt_is_revoked = False\<rparr>"
    let ?P = "\<lambda>t. rt_id t = uuid_refresh rnd \<and> rt_user_id t = u_id user \<and>
                   rt_is_revoked t = False \<and> rt_expires_at t > now2"
    have "?row \<in> set (tbl_refresh_tokens d1)" by (simp add: d1)
    moreover have "?P ?row" using live by simp
    ultimately obtain y where y: "find ?P (tbl_refresh_tokens d1) = Some y"
      using find_not_None [of ?row "tbl_refresh_tokens d1" ?P] by blast
    have lk2: "refresh_lookup self (r_refresh_token resp) d1 now2 = Inr (y, user)"
      using u live facts(1,7,8) y users1
      by (simp add: refresh_lookup_def r1 create_refresh_token_def jwt_encode_def
            decode_token_Signed empty_claims_def Let_def)
    from refresh_rotate_ok [OF salt fr2, of H self y user info2 now2] lk2
    show ?thesis by (simp add: refresh_tokens_def)
  qed
  from a b show ?thesis by blast
qed

theorem refresh_not_idempotent_witness:
  "refresh_tokens sample_digest sample_service refresh1 db1 None 10 (draws_of [] ''a2'' ''r2'') =
     (Inr (rotated ''a2'' ''r2''), db2) \<and>
   decode_token sample_service refresh1 20 \<noteq> Inl TokenExpired \<and>
   refresh_tokens sample_digest sample_service refresh1 db2 None 20 (draws_of [] ''a3'' ''r3'') =
     (Inl (RefreshError RefreshNotFoundOrExpired), db2) \<and>
   (\<exists>resp2 d2.
      refresh_tokens sample_digest sample_service (r_refresh_token (rotated ''a2'' ''r2'')) db2
        None 20 (draws_of [] ''a3'' ''r3'') = (Inr resp2, d2))"
proof -
  have b: "uuid_refresh (draws_of [] ''a2'' ''r2'') \<noteq> [] \<and>
           20 < 10 + days (refresh_token_expire_days sample_service) \<and>
           uuid_refresh (draws_of [] ''a3'' ''r3'') \<notin> set (map rt_id (tbl_refresh_tokens db2)) \<and>
           salt_chars (rnd_token (draws_of [] ''a3'' ''r3''))"
    using salt_chars_sample
    by (simp add: draws_of_def days_def sample_service_def db2_def row0_def row1_def row2_def
          revoke_def)
  from refresh_not_idempotent [OF sample_refresh, of 20 None "draws_of [] ''a3'' ''r3''"]
    sample_refresh1_live b sample_refresh [of "[]"]
  show ?thesis by blast
qed

text \<open>
  C2 (as stated): of two concurrent refresh calls with the same token exactly one succeeds,
  because the write that sets \<^verbatim>\<open>revoked\<close> is conditioned on \<^verbatim>\<open>revoked = false\<close> and the new
  record is created only if that write succeeded. In the code the condition is part of
  the query that reads the record; the write is \<^verbatim>\<open>stored_token.is_revoked = True\<close> on the
  object read earlier. Two calls run \<open>refresh_lookup\<close> and then \<open>refresh_rotate\<close> each; when
  both lookups come before either rotation, both calls read \<open>row1\<close> in \<open>db1\<close> and both
  rotations succeed, leaving the two live records \<open>row2\<close> and \<open>row3\<close>.
\<close>

theorem concurrent_refresh_counterexample:
  "refresh_lookup sample_service refresh1 db1 10 = Inr (row1, alice) \<and>
   refresh_rotate sample_digest sample_service row1 alice db1 None 10 (draws_of [] ''a2'' ''r2'') =
     (Inr (rotated ''a2'' ''r2''), db2) \<and>
   refresh_rotate sample_digest sample_service row1 alice db2 None 10 (draws_of [] ''a3'' ''r3'') =
     (Inr (rotated ''a3'' ''r3''), db3)"
  by (simp add: sample_lookup sample_rotate sample_rotate_again)

text \<open>
  C2 (amended): the check \<^verbatim>\<open>revoked = false\<close> is made when a call reads the record, so a
  call that reads after another call has rotated fails with the error for a missing or
  revoked record. The write is not conditioned: a rotation for a record that was read
  before another call rotated it succeeds as well.
\<close>

theorem refresh_check_at_read_time:
  assumes lk: "refresh_lookup self r0 d now = Inr (stored, user)"
    and rot: "refresh_rotate H self stored user d info now rnd = (Inr resp, d1)"
  shows "(decode_token self r0 now2 \<noteq> Inl TokenExpired \<longrightarrow>
            refresh_tokens H self r0 d1 info2 now2 rnd2 =
              (Inl (RefreshError RefreshNotFoundOrExpired), d1)) \<and>
         (uuid_refresh rnd2 \<notin> set (map rt_id (tbl_refresh_tokens d1)) \<and>
          salt_chars (rnd_token rnd2) \<longrightarrow>
            (\<exists>resp2 d2. refresh_rotate H self stored user d1 info2 now2 rnd2 = (Inr resp2, d2)))"
proof -
  have "refresh_tokens H self r0 d1 info2 now2 rnd2 =
          (Inl (RefreshError RefreshNotFoundOrExpired), d1)"
    if "decode_token self r0 now2 \<noteq> Inl TokenExpired"
    using refresh_lookup_after_rotate [OF lk rot that] by (simp add: refresh_tokens_def)
  moreover have "\<exists>resp2 d2. refresh_rotate H self stored user d1 info2 now2 rnd2 = (Inr resp2, d2)"
    if "uuid_refresh rnd2 \<notin> set (map rt_id (tbl_refresh_tokens d1))"
      and "salt_chars (rnd_token rnd2)"
    using refresh_rotate_ok [OF that(2) that(1)] by blast
  ultimately show ?thesis by blast
qed

theorem refresh_check_at_read_time_witness:
  "refresh_lookup sample_service refresh1 db1 10 = Inr (row1, alice) \<and>
   refresh_rotate sample_digest sample_service row1 alice db1 None 10 (draws_of [] ''a2'' ''r2'') =
     (Inr (rotated ''a2'' ''r2''), db2) \<and>
   decode_token sample_service refresh1 20 \<noteq> Inl TokenExpired \<and>
   refresh_tokens sample_digest sample_service refresh1 db2 None 20 (draws_of [] ''a3'' ''r3'') =
     (Inl (RefreshError RefreshNotFoundOrExpired), db2) \<and>
   uuid_refresh (draws_of [] ''a3'' ''r3'') \<notin> set (map rt_id (tbl_refresh_tokens db2)) \<and>
   salt_chars (rnd_token (draws_of [] ''a3'' ''r3'')) \<and>
   (\<exists>resp2 d2. refresh_rotate sample_digest sample_service row1 alice db2 None 20
      (draws_of [] ''a3'' ''r3'') = (Inr resp2, d2))"
proof -
  have b: "uuid_refresh (draws_of [] ''a3'' ''r3'') \<notin> set (map rt_id (tbl_refresh_tokens db2)) \<and>
           salt_chars (rnd_token (draws_of [] ''a3'' ''r3''))"
    using salt_chars_sample
    by (simp add: draws_of_def db2_def row0_def row1_def row2_def revoke_def)
  from refresh_check_at_read_time [OF sample_lookup sample_rotate, of 20 None
      "draws_of [] ''a3'' ''r3''"]
    sample_refresh1_live b sample_lookup sample_rotate [of "[]"]
  show ?thesis by blast
qed

subsection \<open>Revocation is never undone\<close>

lemma revoked_kept_iff:
  "revoked_kept old new \<longleftrightarrow>
     length old \<le> length new \<and>
     (\<forall>i<length old. rt_id (new ! i) = rt_id (old ! i) \<and>
        (rt_is_revoked (old ! i) \<longrightarrow> rt_is_revoked (new ! i)))"
  by (auto simp: revoked_kept_def list_all_iff)

lemma revoked_kept_refl: "revoked_kept ts ts"
  by (simp add: revoked_kept_iff)

lemma revoked_kept_trans:
  "revoked_kept xs ys \<Longrightarrow> revoked_kept ys zs \<Longrightarrow> revoked_kept xs zs"
  by (fastforce simp: revoked_kept_iff)

lemma revoked_kept_map_append:
  assumes "\<And>t. rt_id (g t) = rt_id t" "\<And>t. rt_is_revoked t \<Longrightarrow> rt_is_revoked (g t)"
  shows "revoked_kept ts (map g ts @ extra)"
  using assms by (simp add: revoked_kept_iff nth_append)

lemma revoked_kept_map:
  assumes "\<And>t. rt_id (g t) = rt_id t" "\<And>t. rt_is_revoked t \<Longrightarrow> rt_is_revoked (g t)"
  shows "revoked_kept ts (map g ts)"
  using revoked_kept_map_append [of g ts "[]"] assms by simp

lemma revoked_kept_append: "revoked_kept ts (ts @ extra)"
  by (simp add: revoked_kept_iff nth_append)

lemma update_user_tokens [simp]:
  "tbl_refresh_tokens (update_user d uid f now) = tbl_refresh_tokens d"
  by (simp add: update_user_def)

lemma revoke_token_kept:
  "revoked_kept (tbl_refresh_tokens d) (tbl_refresh_tokens (revoke_token d tid now))"
  by (simp add: revoke_token_def revoke_def revoked_kept_map)

lemma save_refresh_token_kept:
  "save_refresh_token H self d uid tid info ex now rnd = Inr d' \<Longrightarrow>
   revoked_kept (tbl_refresh_tokens d) (tbl_refresh_tokens d')"
  by (auto simp: save_refresh_token_def add_refresh_token_def revoked_kept_append
        split: sum.splits if_splits)

lemma logout_all_devices_kept:
  "logout_all_devices uid d now = (r, d') \<Longrightarrow>
   revoked_kept (tbl_refresh_tokens d) (tbl_refresh_tokens d')"
  by (auto simp: logout_all_devices_def revoke_def revoked_kept_map)

lemma login_kept:
  "login_with_email_password H self email password d info now rnd = (r, d') \<Longrightarrow>
   revoked_kept (tbl_refresh_tokens d) (tbl_refresh_tokens d')"
  by (auto simp: login_with_email_password_def Let_def revoked_kept_refl
        split: option.splits sum.splits bool.splits prod.splits if_splits
        dest!: save_refresh_token_kept)

lemma add_user_tokens:
  "add_user d row = Inr d' \<Longrightarrow> tbl_refresh_tokens d' = tbl_refresh_tokens d"
  by (auto simp: add_user_def split: if_splits)

lemma register_kept:
  assumes "register H self rq d info now rnd = (r, d')"
  shows "revoked_kept (tbl_refresh_tokens d) (tbl_refresh_tokens d')"
proof -
  have *: "revoked_kept (tbl_refresh_tokens d) (tbl_refresh_tokens d2)"
    if "add_user d row = Inr d1"
       "login_with_email_password H self email password d1 info now rnd = (r2, d2)"
    for row d1 email password r2 d2
    using login_kept [OF that(2)] add_user_tokens [OF that(1)] by simp
  from assms show ?thesis
    unfolding register_def Let_def
    by (auto simp: revoked_kept_refl
        split: option.splits sum.splits prod.splits if_splits dest: *)
qed

lemma refresh_rotate_kept:
  "refresh_rotate H self stored user d info now rnd = (r, d') \<Longrightarrow>
   revoked_kept (tbl_refresh_tokens d) (tbl_refresh_tokens d')"
  by (auto simp: refresh_rotate_def Let_def revoked_kept_refl
        split: sum.splits prod.splits
        dest!: save_refresh_token_kept intro: revoked_kept_trans [OF revoke_token_kept])

lemma refresh_kept:
  "refresh_tokens H self tok d info now rnd = (r, d') \<Longrightarrow>
   revoked_kept (tbl_refresh_tokens d) (tbl_refresh_tokens d')"
  by (auto simp: refresh_tokens_def revoked_kept_refl
        split: sum.splits prod.splits dest: refresh_rotate_kept)

lemma logout_kept:
  "logout self tok d now = (r, d') \<Longrightarrow>
   revoked_kept (tbl_refresh_tokens d) (tbl_refresh_tokens d')"
  by (auto simp: logout_def revoked_kept_refl split: sum.splits prod.splits
        dest: logout_all_devices_kept)

lemma change_password_kept:
  "change_password H self tok pw d now rnd = (r, d') \<Longrightarrow>
   revoked_kept (tbl_refresh_tokens d) (tbl_refresh_tokens d')"
  by (auto simp: change_password_def Let_def revoked_kept_refl
        split: sum.splits prod.splits option.splits if_splits
        dest!: logout_all_devices_kept)

lemma reset_password_with_token_kept:
  "reset_password_with_token H self tok pw d now rnd = (r, d') \<Longrightarrow>
   revoked_kept (tbl_refresh_tokens d) (tbl_refresh_tokens d')"
  by (auto simp: reset_password_with_token_def Let_def revoked_kept_refl
        split: sum.splits prod.splits option.splits if_splits jwt_error.splits
        dest!: logout_all_devices_kept)

lemma run_kept:
  "revoked_kept (tbl_refresh_tokens d) (tbl_refresh_tokens (run H self d c))"
  by (cases c)
     (auto simp: revoked_kept_refl
        intro: login_kept register_kept refresh_kept logout_kept logout_all_devices_kept
               change_password_kept reset_password_with_token_kept prod.collapse [symmetric])

lemma run_all_kept:
  "revoked_kept (tbl_refresh_tokens d) (tbl_refresh_tokens (run_all H self d calls))"
  unfolding run_all_def
proof (induction calls arbitrary: d)
  case Nil
  show ?case by (simp add: revoked_kept_refl)
next
  case (Cons c calls)
  show ?case using revoked_kept_trans [OF run_kept Cons.IH] by simp
qed

text \<open>
  C3: revocation is permanent. Whatever calls of login, register, refresh, logout,
  logout-everywhere, password change and password reset follow, successful or not, a
  refresh record that is revoked stays in the table under its id and stays revoked.
\<close>

theorem revocation_is_permanent:
  assumes "i < length (tbl_refresh_tokens d)"
    and "rt_is_revoked (tbl_refresh_tokens d ! i)"
  shows "i < length (tbl_refresh_tokens (run_all H self d calls)) \<and>
         rt_id (tbl_refresh_tokens (run_all H self d calls) ! i) = rt_id (tbl_refresh_tokens d ! i) \<and>
         rt_is_revoked (tbl_refresh_tokens (run_all H self d calls) ! i)"
  using assms run_all_kept [of d H self calls] by (auto simp: revoked_kept_iff)

theorem revocation_is_permanent_witness:
  "0 < length (tbl_refresh_tokens db1) \<and> rt_is_revoked (tbl_refresh_tokens db1 ! 0) \<and>
   rt_id (tbl_refresh_tokens db1 ! 0) = ''r0'' \<and>
   rt_id (tbl_refresh_tokens (run_all sample_digest sample_service db1
      [Refresh refresh1 None 10 (draws_of [] ''a2'' ''r2''),
       Login ''a@u.edu'' ''secret'' None 15 (draws_of [] ''a3'' ''r3''),
       Logout access1 20,
       ChangePassword access1 ''newsecret'' 30 (draws_of [] [] [])]) ! 0) = ''r0'' \<and>
   rt_is_revoked (tbl_refresh_tokens (run_all sample_digest sample_service db1
      [Refresh refresh1 None 10 (draws_of [] ''a2'' ''r2''),
       Login ''a@u.edu'' ''secret'' None 15 (draws_of [] ''a3'' ''r3''),
       Logout access1 20,
       ChangePassword access1 ''newsecret'' 30 (draws_of [] [] [])]) ! 0)"
proof -
  have h: "0 < length (tbl_refresh_tokens db1)" "rt_is_revoked (tbl_refresh_tokens db1 ! 0)"
    "rt_id (tbl_refresh_tokens db1 ! 0) = ''r0''"
    by (simp_all add: db1_def row0_def)
  from revocation_is_permanent [OF h(1,2), of sample_digest sample_service] h
  show ?thesis by simp
qed

subsection \<open>Registration of a teacher\<close>



text \<open>
  A password that \<^verbatim>\<open>bcrypt.hashpw\<close> does not take is turned away like a field that fails
  its check: \<^verbatim>\<open>register\<close> raises before it adds a row.
\<close>

lemma register_long_password:
  assumes "email = lower (strip (dict_get (rq_email rq) []))"
    and "email \<noteq> []" and "CHR ''@'' \<in> set email"
    and "72 < length (dict_get (rq_password rq) [])"
    and "2 \<le> length (strip (dict_get (rq_full_name rq) []))"
    and "email \<notin> set (map u_email (tbl_users d))"
  shows "register H self rq d info now rnd = (Inl BcryptValueError, d)"
proof -
  have nf: "find (\<lambda>u. u_email u = email) (tbl_users d) = None"
    using assms(6) by (auto simp: find_None_iff)
  have ne: "dict_get (rq_password rq) [] \<noteq> []" "strip (dict_get (rq_full_name rq) []) \<noteq> []"
    using assms(4,5) by auto
  show ?thesis
    using assms(1-5) ne nf
    by (simp add: register_def Let_def hash_password_def bcrypt_hashpw_def)
qed



end
